theory Spec2Isabelle
  imports Complex_Main "HOL-Library.AList" "HOL-Library.Char_ord" "HOL-Library.List_Lexorder"
    "HOL-Library.Sublist"
begin

section \<open>Python values, errors and text formatting\<close>

text \<open>
  The exceptions that the statements of \<^verbatim>\<open>lightshow/parameters/xspectra.py\<close> can raise.
  \<open>DecodeError\<close> stands for whatever \<^verbatim>\<open>base64.b64decode\<close>, \<^verbatim>\<open>bz2.decompress\<close> and
  \<^verbatim>\<open>bytes.decode\<close> raise on malformed input, \<open>NotText\<close> for reading a file as text that
  the model holds as a parsed document.
\<close>

datatype py_error =
    FileNotFoundError | KeyError | IndexError | TypeError | AttributeError
  | UnboundLocalError | ZeroDivisionError | JSONDecodeError | SameFileError | PWInputError
  | DecodeError | NotText

text \<open>
  Scalars of the cards that are only ever passed to \<^verbatim>\<open>str()\<close>: an int, a float (carried by
  its \<^verbatim>\<open>repr\<close>, which is what \<^verbatim>\<open>str\<close> prints) or a string.
\<close>

datatype pyval = PyInt int | PyFloat string | PyStr string

text \<open>A float product such as \<^verbatim>\<open>self._defaultConvPerAtom * len(structure)\<close> is kept as the
  expression that computes it.\<close>

datatype pynum = Num pyval | Times pyval nat

type_synonym path = string

definition digit_char :: "nat \<Rightarrow> char" where
  "digit_char n = ''0123456789'' ! n"

fun show_nat :: "nat \<Rightarrow> string" where
  "show_nat n = (if n < 10 then [digit_char n] else show_nat (n div 10) @ [digit_char (n mod 10)])"

declare show_nat.simps [simp del]

text \<open>\<^verbatim>\<open>"%d" % i\<close> and \<^verbatim>\<open>str(i)\<close> for an int.\<close>

definition show_int :: "int \<Rightarrow> string" where
  "show_int i = (if i < 0 then ''-'' @ show_nat (nat (- i)) else show_nat (nat i))"

definition py_str :: "pyval \<Rightarrow> string" where
  "py_str v = (case v of PyInt i \<Rightarrow> show_int i | PyFloat r \<Rightarrow> r | PyStr s \<Rightarrow> s)"

definition zfill :: "nat \<Rightarrow> string \<Rightarrow> string" where
  "zfill k s = replicate (k - length s) (CHR ''0'') @ s"

text \<open>\<^verbatim>\<open>f"{site:03}"\<close>: zero padding to width 3, the sign counted in the width.\<close>

definition fmt03 :: "int \<Rightarrow> string" where
  "fmt03 i = (if i < 0 then ''-'' @ zfill 2 (show_nat (nat (- i))) else zfill 3 (show_nat (nat i)))"

text \<open>\<^verbatim>\<open>"%.10f" % k\<close> for an int \<open>k\<close> (the only values \<^verbatim>\<open>write\<close> could pass).\<close>

definition fmt_10f :: "int \<Rightarrow> string" where
  "fmt_10f k = show_int k @ ''.0000000000''"

text \<open>\<^verbatim>\<open>Path(a) / Path(b)\<close> and \<^verbatim>\<open>a + "/" + b\<close>, for relative names without redundant
  separators.\<close>

definition path_join :: "path \<Rightarrow> string \<Rightarrow> path" where
  "path_join a b = a @ ''/'' @ b"

text \<open>Python list indexing: negative indices count from the end.\<close>

definition py_index :: "'a list \<Rightarrow> int \<Rightarrow> py_error + nat" where
  "py_index xs i =
     (let n = int (length xs); j = (if i < 0 then i + n else i)
      in if 0 \<le> j \<and> j < n then Inr (nat j) else Inl IndexError)"

text \<open>\<^verbatim>\<open>"\n".join(inp) + "\n"\<close> for a non-empty list of lines.\<close>

definition join_lines :: "string list \<Rightarrow> string" where
  "join_lines ls = concat (map (\<lambda>l. l @ [CHR 0x0A]) ls)"


section \<open>The cards\<close>

text \<open>
  \<^verbatim>\<open>XSPECTRA_DEFAULT_CARDS\<close> is a nested dict. Each section is a record of the keys this
  module reads or writes; the keys it only hands on are kept in a \<open>rest\<close> list. The keys
  \<^verbatim>\<open>pseudo_dir\<close>, \<^verbatim>\<open>element\<close> and \<^verbatim>\<open>edge\<close> are absent from the defaults and added by
  \<^verbatim>\<open>write\<close>, hence optional.
\<close>

record qe_control =
  pseudo_dir :: "string option"
  control_rest :: "(string \<times> pyval) list"

record qe_electrons =
  conv_thr :: pynum
  electrons_rest :: "(string \<times> pyval) list"

record qe_system =
  ecutrho :: rat
  ecutwfc :: rat
  system_rest :: "(string \<times> pyval) list"

record xs_params =
  element :: "string option"
  cut_desmooth :: pyval
  xs_edge :: "string option"
  xcheck_conv :: pyval
  xerror :: pyval
  xniter :: pyval
  xcoordcrys :: string
  kpts :: string
  shift :: string
  cut_occ_states :: string
  terminator :: string
  xemax :: pyval
  xemin :: pyval
  xnepoint :: pyval
  xs_rest :: "(string \<times> pyval) list"

record cards_t =
  control :: qe_control
  electrons :: qe_electrons
  system :: qe_system
  XS :: xs_params

definition XSPECTRA_DEFAULT_CARDS :: cards_t where
  "XSPECTRA_DEFAULT_CARDS =
     \<lparr> control = \<lparr> pseudo_dir = None,
                   control_rest = [(''restart_mode'', PyStr ''from_scratch'')] \<rparr>,
       electrons = \<lparr> conv_thr = Num (PyFloat ''1e-08''),
                     electrons_rest = [(''mixing_beta'', PyFloat ''0.4'')] \<rparr>,
       system = \<lparr> ecutrho = 320, ecutwfc = 40,
                  system_rest = [(''degauss'', PyFloat ''0.002''), (''nspin'', PyInt 1),
                                 (''occupations'', PyStr ''smearing''),
                                 (''smearing'', PyStr ''gauss'')] \<rparr>,
       XS = \<lparr> element = None,
              cut_desmooth = PyFloat ''0.3'',
              xs_edge = None,
              xcheck_conv = PyInt 200,
              xerror = PyFloat ''0.01'',
              xniter = PyInt 5000,
              xcoordcrys = ''.false.'',
              kpts = ''2 2 2'',
              shift = ''0 0 0'',
              cut_occ_states = ''.true.'',
              terminator = ''.true.'',
              xemax = PyInt 70,
              xemin = PyFloat ''-15.0'',
              xnepoint = PyInt 400,
              xs_rest = [(''outdir'', PyStr ''../''), (''prefix'', PyStr ''pwscf'')] \<rparr> \<rparr>"


section \<open>Structures, files and the instance\<close>

text \<open>
  A structure is seen through its list of species labels (element symbols, and the ionized
  label \<^verbatim>\<open>element + "+"\<close> while a site is processed) and the number of sites of its
  primitive cell, which pymatgen computes.
\<close>

record structure_t =
  species :: "string list"
  primitive_sites :: nat

text \<open>One entry of the cutoff table (a JSON object); each key may be missing.\<close>

record psp_entry =
  filename :: "string option"
  cutoff_wfc :: "rat option"
  cutoff_rho :: "rat option"
  cutoff :: "rat option"
  rho_cutoff :: "rat option"

text \<open>
  An archive value: \<open>Bz2_b64 s\<close> is \<^verbatim>\<open>base64.b64encode(bz2.compress(s.encode("utf-8"), 9))\<close>,
  which the decoders map back to \<open>s\<close>; \<open>Malformed\<close> is any string they reject.
\<close>

datatype packed = Bz2_b64 string | Malformed

text \<open>What \<^verbatim>\<open>PWInput(structure, pseudo=..., control=..., system=..., electrons=...,
  kpoints_grid=...)\<close> is built from; \<^verbatim>\<open>write_file\<close> renders it at once.\<close>

record pwinput =
  pw_species :: "string list"
  pw_pseudo :: "(string \<times> string) list"
  pw_control :: qe_control
  pw_system :: qe_system
  pw_electrons :: qe_electrons
  pw_kpoints_grid :: "int \<times> int \<times> int"

text \<open>
  A file is held as what the program reads or writes it as: plain text, a parsed JSON
  cutoff table, a parsed JSON archive, the rendering of a \<open>pwinput\<close>, or the text
  \<^verbatim>\<open>str(a / b) + "\n"\<close> of a float quotient of two ints.
\<close>

datatype content =
    Text string
  | CutoffTable "(string \<times> psp_entry) list"
  | PspArchive "(string \<times> packed) list"
  | PWDeck pwinput
  | QuotientText int int

record world =
  files :: "path \<rightharpoonup> content"
  warnings :: "string list"

record xspectra =
  cards :: cards_t
  chpsp_directory :: "string option"
  psp_cutoff_table :: "string option"
  psp_json :: "string option"
  psp_directory :: "string option"
  kpoints :: "structure_t \<Rightarrow> int \<times> int \<times> int"
  defaultConvPerAtom :: pyval
  edge :: string
  name :: string

record kwargs =
  structure_sc :: structure_t
  sites :: "int list"
  index_mapping :: "int \<rightharpoonup> int"

record status =
  pass :: bool
  errors :: "(string \<times> string) list"

text \<open>
  \<^verbatim>\<open>Path(self.<attr>)\<close>: the attributes that \<^verbatim>\<open>__init__\<close> sets are \<^verbatim>\<open>_cards\<close>,
  \<^verbatim>\<open>_chpsp_directory\<close>, \<^verbatim>\<open>_psp_cutoff_table\<close>, \<^verbatim>\<open>_psp_json\<close>, \<^verbatim>\<open>_psp_directory\<close>,
  \<^verbatim>\<open>_kpoints\<close>, \<^verbatim>\<open>_defaultConvPerAtom\<close>, \<^verbatim>\<open>_edge\<close> and \<^verbatim>\<open>_name\<close>. Any other name raises
  AttributeError; \<^verbatim>\<open>Path\<close> of \<^verbatim>\<open>None\<close> or of a non-string raises TypeError.
\<close>

definition Path_attr :: "xspectra \<Rightarrow> string \<Rightarrow> py_error + path" where
  "Path_attr self a =
     (let of_opt = (\<lambda>v. case v of None \<Rightarrow> Inl TypeError | Some p \<Rightarrow> Inr p) in
      if a = ''_chpsp_directory'' then of_opt (chpsp_directory self)
      else if a = ''_psp_cutoff_table'' then of_opt (psp_cutoff_table self)
      else if a = ''_psp_json'' then of_opt (psp_json self)
      else if a = ''_psp_directory'' then of_opt (psp_directory self)
      else if a = ''_edge'' then Inr (edge self)
      else if a = ''_name'' then Inr (name self)
      else if a = ''_cards'' \<or> a = ''_kpoints'' \<or> a = ''_defaultConvPerAtom'' then Inl TypeError
      else Inl AttributeError)"

text \<open>\<^verbatim>\<open>json.load(open(p))\<close> expecting a cutoff table, resp. an archive.\<close>

definition load_table :: "(path \<rightharpoonup> content) \<Rightarrow> path \<Rightarrow> py_error + (string \<times> psp_entry) list" where
  "load_table fs p =
     (case fs p of
        None \<Rightarrow> Inl FileNotFoundError
      | Some (CutoffTable t) \<Rightarrow> Inr t
      | Some _ \<Rightarrow> Inl JSONDecodeError)"

definition load_archive :: "(path \<rightharpoonup> content) \<Rightarrow> path \<Rightarrow> py_error + (string \<times> packed) list" where
  "load_archive fs p =
     (case fs p of
        None \<Rightarrow> Inl FileNotFoundError
      | Some (PspArchive a) \<Rightarrow> Inr a
      | Some _ \<Rightarrow> Inl JSONDecodeError)"

text \<open>\<^verbatim>\<open>open(p, "r").read()\<close> of a text file.\<close>

definition read_text :: "(path \<rightharpoonup> content) \<Rightarrow> path \<Rightarrow> py_error + string" where
  "read_text fs p =
     (case fs p of
        None \<Rightarrow> Inl FileNotFoundError
      | Some (Text s) \<Rightarrow> Inr s
      | Some _ \<Rightarrow> Inl NotText)"

text \<open>\<^verbatim>\<open>shutil.copyfile(src, dst)\<close>.\<close>

definition copyfile :: "(path \<rightharpoonup> content) \<Rightarrow> path \<Rightarrow> path \<Rightarrow> py_error + (path \<rightharpoonup> content)" where
  "copyfile fs src dst =
     (case fs src of
        None \<Rightarrow> Inl FileNotFoundError
      | Some c \<Rightarrow> if src = dst then Inl SameFileError else Inr (fs(dst \<mapsto> c)))"

definition decode_packed :: "packed \<Rightarrow> py_error + string" where
  "decode_packed b = (case b of Bz2_b64 s \<Rightarrow> Inr s | Malformed \<Rightarrow> Inl DecodeError)"


section \<open>The archive codec: packPsps and unpackPsps\<close>

type_synonym psp_dict = "(string \<times> string) list"

text \<open>The loop of \<^verbatim>\<open>packPsps\<close> over the keys of the cutoff table.\<close>

fun pack_entries ::
  "(path \<rightharpoonup> content) \<Rightarrow> path \<Rightarrow> (string \<times> psp_entry) list \<Rightarrow> string list \<Rightarrow>
   (string \<times> packed) list \<Rightarrow> py_error + (string \<times> packed) list" where
  "pack_entries fs d inJSON [] outJSON = Inr outJSON"
| "pack_entries fs d inJSON (el # rest) outJSON =
     (case map_of inJSON el of
        None \<Rightarrow> Inl KeyError
      | Some entry \<Rightarrow>
          (case filename entry of
             None \<Rightarrow> Inl KeyError
           | Some fn \<Rightarrow>
               (case read_text fs (path_join d fn) of
                  Inl e \<Rightarrow> Inl e
                | Inr pspString \<Rightarrow>
                    pack_entries fs d inJSON rest (AList.update fn (Bz2_b64 pspString) outJSON))))"

definition packPsps :: "xspectra \<Rightarrow> path \<Rightarrow> (path \<rightharpoonup> content) \<Rightarrow> py_error + (path \<rightharpoonup> content)" where
  "packPsps self pspJsonOut fs =
     (case Path_attr self ''_psp_directory'' of
        Inl e \<Rightarrow> Inl e
      | Inr d \<Rightarrow>
          (case Path_attr self ''_psp_cutoff_table'' of
             Inl e \<Rightarrow> Inl e
           | Inr t \<Rightarrow>
               (case load_table fs (path_join d t) of
                  Inl e \<Rightarrow> Inl e
                | Inr inJSON \<Rightarrow>
                    (case pack_entries fs d inJSON (map fst inJSON) [] of
                       Inl e \<Rightarrow> Inl e
                     | Inr outJSON \<Rightarrow> Inr (fs(pspJsonOut \<mapsto> PspArchive outJSON))))))"

text \<open>The first loop of \<^verbatim>\<open>_unpackPsps\<close>: file names and cutoffs, read under the keys
  \<^verbatim>\<open>"cutoff"\<close> and \<^verbatim>\<open>"rho_cutoff"\<close>.\<close>

fun unpack_cutoffs ::
  "(string \<times> psp_entry) list \<Rightarrow> string list \<Rightarrow> psp_dict \<times> rat \<times> rat \<Rightarrow>
   py_error + (psp_dict \<times> rat \<times> rat)" where
  "unpack_cutoffs pspDatabase [] acc = Inr acc"
| "unpack_cutoffs pspDatabase (symbol # rest) (psp, wfc, rho) =
     (case map_of pspDatabase symbol of
        None \<Rightarrow> Inl KeyError
      | Some entry \<Rightarrow>
          (case filename entry of
             None \<Rightarrow> Inl KeyError
           | Some fn \<Rightarrow>
               (case cutoff entry of
                  None \<Rightarrow> Inl KeyError
                | Some c \<Rightarrow>
                    (case rho_cutoff entry of
                       None \<Rightarrow> Inl KeyError
                     | Some r \<Rightarrow>
                         unpack_cutoffs pspDatabase rest
                           (AList.update symbol fn psp,
                            (if wfc < c then c else wfc),
                            (if rho < r then r else rho))))))"

text \<open>The second loop: decode each needed archive entry and write it into the folder.\<close>

fun unpack_files ::
  "(string \<times> packed) list \<Rightarrow> psp_dict \<Rightarrow> path \<Rightarrow> string list \<Rightarrow> (path \<rightharpoonup> content) \<Rightarrow>
   py_error option \<times> (path \<rightharpoonup> content)" where
  "unpack_files pspJSON psp folder [] fs = (None, fs)"
| "unpack_files pspJSON psp folder (symbol # rest) fs =
     (case map_of psp symbol of
        None \<Rightarrow> (Some KeyError, fs)
      | Some fileName \<Rightarrow>
          (case map_of pspJSON fileName of
             None \<Rightarrow> (Some KeyError, fs)
           | Some b \<Rightarrow>
               (case decode_packed b of
                  Inl e \<Rightarrow> (Some e, fs)
                | Inr pspString \<Rightarrow>
                    unpack_files pspJSON psp folder rest
                      (fs(path_join folder fileName \<mapsto> Text pspString)))))"

text \<open>
  \<^verbatim>\<open>_unpackPsps(ecutwfc, ecutrho, symbols, folder)\<close>. Its first path is built from the
  attribute \<^verbatim>\<open>self._psp_directoy\<close>, as the source spells it. The set \<^verbatim>\<open>minSymbols\<close> is
  walked in the order of first occurrence. The files written before an exception stay.
\<close>

definition unpackPsps ::
  "xspectra \<Rightarrow> rat \<Rightarrow> rat \<Rightarrow> string list \<Rightarrow> path \<Rightarrow> (path \<rightharpoonup> content) \<Rightarrow>
   (py_error + (psp_dict \<times> rat \<times> rat)) \<times> (path \<rightharpoonup> content)" where
  "unpackPsps self wfc rho symbols folder fs =
     (case Path_attr self ''_psp_directoy'' of
        Inl e \<Rightarrow> (Inl e, fs)
      | Inr d0 \<Rightarrow>
     (case Path_attr self ''_psp_cutoff_table'' of
        Inl e \<Rightarrow> (Inl e, fs)
      | Inr t \<Rightarrow>
     (case load_table fs (path_join d0 t) of
        Inl e \<Rightarrow> (Inl e, fs)
      | Inr pspDatabase \<Rightarrow>
     (let minSymbols = remdups symbols in
      case unpack_cutoffs pspDatabase minSymbols ([], wfc, rho) of
        Inl e \<Rightarrow> (Inl e, fs)
      | Inr (psp, wfc1, rho1) \<Rightarrow>
     (case Path_attr self ''_psp_directory'' of
        Inl e \<Rightarrow> (Inl e, fs)
      | Inr d \<Rightarrow>
     (case Path_attr self ''_psp_json'' of
        Inl e \<Rightarrow> (Inl e, fs)
      | Inr j \<Rightarrow>
     (case load_archive fs (path_join d j) of
        Inl e \<Rightarrow> (Inl e, fs)
      | Inr pspJSON \<Rightarrow>
     (case unpack_files pspJSON psp folder minSymbols fs of
        (Some e, fs1) \<Rightarrow> (Inl e, fs1)
      | (None, fs1) \<Rightarrow> (Inr (psp, wfc1, rho1), fs1)))))))))"


section \<open>Rendering the XANES deck\<close>

text \<open>The list \<^verbatim>\<open>inp\<close> of deck lines.\<close>

definition xspectra_lines ::
  "xspectra \<Rightarrow> string \<Rightarrow> int \<Rightarrow> int list \<Rightarrow> int list \<Rightarrow> py_error + string list" where
  "xspectra_lines self mode iabs dirs xkvec =
     (let XSparams = XS (cards self) in
      case element XSparams of
        None \<Rightarrow> Inl KeyError
      | Some elem \<Rightarrow>
     (case xs_edge XSparams of
        None \<Rightarrow> Inl KeyError
      | Some edg \<Rightarrow>
     (if length dirs < 3 then Inl IndexError
      else if mode = ''quadrupole'' \<and> length xkvec < 3 then Inl IndexError
      else Inr (
        [ ''&input_xspectra'',
          ''    calculation = '' @ [CHR 0x27] @ ''xanes_'' @ mode @ [CHR 0x27],
          ''    edge = '' @ [CHR 0x27] @ edg @ [CHR 0x27],
          ''    prefix = '' @ [CHR 0x27] @ ''pwscf'' @ [CHR 0x27],
          ''    outdir = '' @ [CHR 0x27] @ ''../'' @ [CHR 0x27],
          ''    xniter = '' @ py_str (xniter XSparams),
          ''    xiabs = '' @ show_int iabs,
          ''    xerror = '' @ py_str (xerror XSparams),
          ''    xcoordcrys = '' @ xcoordcrys XSparams,
          ''    xcheck_conv = '' @ py_str (xcheck_conv XSparams),
          ''    xepsilon(1) = '' @ show_int (dirs ! 0),
          ''    xepsilon(2) = '' @ show_int (dirs ! 1),
          ''    xepsilon(3) = '' @ show_int (dirs ! 2) ]
        @ (if mode = ''quadrupole'' then
             [ ''    xkvec(1) = '' @ fmt_10f (xkvec ! 0),
               ''    xkvec(2) = '' @ fmt_10f (xkvec ! 1),
               ''    xkvec(3) = '' @ fmt_10f (xkvec ! 2) ]
           else [])
        @ [ ''/'',
            ''&plot'',
            ''    xnepoint = '' @ py_str (xnepoint XSparams),
            ''    xemin = '' @ py_str (xemin XSparams),
            ''    xemax = '' @ py_str (xemax XSparams),
            ''    terminator = '' @ terminator XSparams,
            ''    cut_occ_states = '' @ cut_occ_states XSparams,
            ''    gamma_mode = '' @ [CHR 0x27] @ ''constant'' @ [CHR 0x27],
            ''    xgamma = 0.01 '',
            ''/'' ]
        @ [ ''&pseudos'',
            ''    filecore = '' @ [CHR 0x27] @ ''../../Core_'' @ elem @ ''.wfc'' @ [CHR 0x27],
            ''/'',
            ''&cut_occ'',
            ''    cut_desmooth = '' @ py_str (cut_desmooth XSparams),
            ''/'',
            kpts XSparams @ '' '' @ shift XSparams ]))))"

definition write_xspectra_in ::
  "xspectra \<Rightarrow> string \<Rightarrow> int \<Rightarrow> int list \<Rightarrow> int list \<Rightarrow> py_error + string" where
  "write_xspectra_in self mode iabs dirs xkvec =
     (case xspectra_lines self mode iabs dirs xkvec of
        Inl e \<Rightarrow> Inl e
      | Inr inp \<Rightarrow> Inr (join_lines inp))"


section \<open>write\<close>

text \<open>\<^verbatim>\<open>[structure[index_mapping[site]].specie.symbol for site in sites]\<close>\<close>

fun site_species :: "structure_t \<Rightarrow> (int \<rightharpoonup> int) \<Rightarrow> int list \<Rightarrow> py_error + string list" where
  "site_species st imap [] = Inr []"
| "site_species st imap (site # rest) =
     (case imap site of
        None \<Rightarrow> Inl KeyError
      | Some i \<Rightarrow>
          (case py_index (species st) i of
             Inl e \<Rightarrow> Inl e
           | Inr j \<Rightarrow>
               (case site_species st imap rest of
                  Inl e \<Rightarrow> Inl e
                | Inr ss \<Rightarrow> Inr (species st ! j # ss))))"

text \<open>
  Lines 368 to 398: the symbols, the absorbing element (the species of the first requested
  site), the k-point meshes, and the first updates of the cards. Nothing is mutated before
  the last statement that can raise.
\<close>

definition write_setup ::
  "xspectra \<Rightarrow> kwargs \<Rightarrow>
   py_error + (xspectra \<times> string list \<times> string list \<times> string \<times> (int \<times> int \<times> int))" where
  "write_setup self kw =
     (let st = structure_sc kw; symbols = species st in
      case site_species st (index_mapping kw) (sites kw) of
        Inl e \<Rightarrow> Inl e
      | Inr spc \<Rightarrow>
          (case spc of
             [] \<Rightarrow> Inl IndexError
           | elem # _ \<Rightarrow>
               (let kpoints_scf =
                      (if primitive_sites st \<noteq> length (species st) then (1, 1, 1)
                       else kpoints self st);
                    kpoints_xas = kpoints self st;
                    c = cards self;
                    c1 = c\<lparr> XS := (XS c)\<lparr> element := Some elem, xs_edge := Some (edge self),
                                         kpts := show_int (fst kpoints_xas) @ '' ''
                                                 @ show_int (fst (snd kpoints_xas)) @ '' ''
                                                 @ show_int (snd (snd kpoints_xas)) \<rparr>,
                           electrons := (electrons c)\<lparr> conv_thr :=
                                           Times (defaultConvPerAtom self) (length (species st)) \<rparr> \<rparr>
                in Inr (self\<lparr> cards := c1 \<rparr>, symbols, spc, elem, kpoints_scf))))"

text \<open>
  The loop of the direct lookup (lines 414 to 424) over the symbols, on the local variables
  \<^verbatim>\<open>psp\<close>, \<^verbatim>\<open>ecutwfc\<close>, \<^verbatim>\<open>ecutrho\<close> and the files. An exception leaves them as they are at
  that point.
\<close>

fun direct_lookup ::
  "path \<Rightarrow> path \<Rightarrow> (string \<times> psp_entry) list \<Rightarrow> string list \<Rightarrow>
   psp_dict \<times> rat \<times> rat \<times> (path \<rightharpoonup> content) \<Rightarrow>
   py_error option \<times> psp_dict \<times> rat \<times> rat \<times> (path \<rightharpoonup> content)" where
  "direct_lookup d target psp_dict [] acc = (None, acc)"
| "direct_lookup d target psp_dict (symbol # rest) (psp, wfc, rho, fs) =
     (case map_of psp_dict symbol of
        None \<Rightarrow> (Some KeyError, psp, wfc, rho, fs)
      | Some entry \<Rightarrow>
          (case filename entry of
             None \<Rightarrow> (Some KeyError, psp, wfc, rho, fs)
           | Some psp_filename \<Rightarrow>
               (let psp1 = AList.update symbol psp_filename psp in
                case copyfile fs (path_join d psp_filename) (path_join target psp_filename) of
                  Inl e \<Rightarrow> (Some e, psp1, wfc, rho, fs)
                | Inr fs1 \<Rightarrow>
                    (case cutoff_wfc entry of
                       None \<Rightarrow> (Some KeyError, psp1, wfc, rho, fs1)
                     | Some cw \<Rightarrow>
                         (let wfc1 = (if cw > wfc then cw else wfc) in
                          case cutoff_rho entry of
                            None \<Rightarrow> (Some KeyError, psp1, wfc1, rho, fs1)
                          | Some cr \<Rightarrow>
                              direct_lookup d target psp_dict rest
                                (psp1, wfc1, (if cr > rho then cr else rho), fs1))))))"

text \<open>The body of the outer \<^verbatim>\<open>try\<close> (lines 408 to 424). \<^verbatim>\<open>psp\<close> is unbound (\<open>None\<close>)
  until the table is loaded.\<close>

definition tier1 ::
  "xspectra \<Rightarrow> path \<Rightarrow> string list \<Rightarrow> rat \<Rightarrow> rat \<Rightarrow> (path \<rightharpoonup> content) \<Rightarrow>
   py_error option \<times> psp_dict option \<times> rat \<times> rat \<times> (path \<rightharpoonup> content)" where
  "tier1 self target symbols wfc rho fs =
     (case Path_attr self ''_psp_directory'' of
        Inl e \<Rightarrow> (Some e, None, wfc, rho, fs)
      | Inr d \<Rightarrow>
          (case Path_attr self ''_psp_cutoff_table'' of
             Inl e \<Rightarrow> (Some e, None, wfc, rho, fs)
           | Inr t \<Rightarrow>
               (case load_table fs (path_join d t) of
                  Inl e \<Rightarrow> (Some e, None, wfc, rho, fs)
                | Inr psp_dict \<Rightarrow>
                    (case direct_lookup d target psp_dict symbols ([], wfc, rho, fs) of
                       (err, psp, wfc1, rho1, fs1) \<Rightarrow> (err, Some psp, wfc1, rho1, fs1)))))"

text \<open>\<^verbatim>\<open>{symbol: symbol + ".upf" for symbol in symbols}\<close>\<close>

definition placeholder_psp :: "string list \<Rightarrow> psp_dict" where
  "placeholder_psp symbols = fold (\<lambda>symbol psp. AList.update symbol (symbol @ ''.upf'') psp) symbols []"

definition psp_warning :: "string option \<Rightarrow> string" where
  "psp_warning d =
     ''Some pseudo potential files are not present in f'' @ (case d of None \<Rightarrow> ''None'' | Some p \<Rightarrow> p)"

text \<open>
  Lines 403 to 441: the two \<^verbatim>\<open>if\<close> statements on \<^verbatim>\<open>self._psp_directory\<close>. Only
  FileNotFoundError is caught; any other exception leaves \<^verbatim>\<open>write\<close>. The result holds the
  local \<^verbatim>\<open>psp\<close> (\<open>None\<close> while unbound) and the two cutoffs.
\<close>

definition resolve_psp ::
  "xspectra \<Rightarrow> path \<Rightarrow> string list \<Rightarrow> world \<Rightarrow>
   (py_error + (psp_dict option \<times> rat \<times> rat)) \<times> xspectra \<times> world" where
  "resolve_psp self target symbols w =
     (let wfc0 = ecutwfc (system (cards self));
          rho0 = ecutrho (system (cards self));
          first_if =
            (if psp_directory self \<noteq> None then
               (case tier1 self target symbols wfc0 rho0 (files w) of
                  (None, psp, wfc, rho, fs) \<Rightarrow> (Inr (psp, wfc, rho), self, w\<lparr> files := fs \<rparr>)
                | (Some e, psp, wfc, rho, fs) \<Rightarrow>
                    (if e = FileNotFoundError then
                       (case unpackPsps self wfc rho symbols target fs of
                          (Inr (psp2, wfc2, rho2), fs2) \<Rightarrow>
                            (Inr (Some psp2, wfc2, rho2), self, w\<lparr> files := fs2 \<rparr>)
                        | (Inl e2, fs2) \<Rightarrow>
                            (if e2 = FileNotFoundError then
                               (Inr (psp, wfc, rho),
                                self\<lparr> psp_directory := None \<rparr>,
                                w\<lparr> files := fs2,
                                   warnings := warnings w @ [psp_warning (psp_directory self)] \<rparr>)
                             else (Inl e2, self, w\<lparr> files := fs2 \<rparr>)))
                     else (Inl e, self, w\<lparr> files := fs \<rparr>)))
             else (Inr (None, wfc0, rho0), self, w))
      in case first_if of
           (Inl e, self1, w1) \<Rightarrow> (Inl e, self1, w1)
         | (Inr (psp, wfc, rho), self1, w1) \<Rightarrow>
             (if psp_directory self1 = None
              then (Inr (Some (placeholder_psp symbols), wfc, rho), self1, w1)
              else (Inr (psp, wfc, rho), self1, w1)))"

text \<open>
  The constructor of pymatgen's \<^verbatim>\<open>PWInput\<close>: every species of the structure needs an
  entry in \<^verbatim>\<open>pseudo\<close>.
\<close>

definition PWInput ::
  "structure_t \<Rightarrow> psp_dict \<Rightarrow> qe_control \<Rightarrow> qe_system \<Rightarrow> qe_electrons \<Rightarrow> int \<times> int \<times> int \<Rightarrow>
   py_error + pwinput" where
  "PWInput st pseudo c s e k =
     (if list_all (\<lambda>sp. sp \<in> set (map fst pseudo)) (species st)
      then Inr \<lparr> pw_species = species st, pw_pseudo = pseudo, pw_control = c, pw_system = s,
                 pw_electrons = e, pw_kpoints_grid = k \<rparr>
      else Inl PWInputError)"

definition chpsp_warning :: "string \<Rightarrow> string \<Rightarrow> string" where
  "chpsp_warning elem ch = elem @ ''.fch.upf or Core_'' @ elem @ ''.wfc not found in '' @ ch"

text \<open>
  Lines 459 to 475: the ionized entry of the mapping and the two copies. The destination
  names are the plain (not formatted) string literals of the source.
\<close>

definition inject_core_hole ::
  "xspectra \<Rightarrow> path \<Rightarrow> string \<Rightarrow> psp_dict \<Rightarrow> world \<Rightarrow> (py_error + psp_dict) \<times> world" where
  "inject_core_hole self target elem psp w =
     (let psp1 = AList.update (elem @ ''+'') (elem @ ''.fch.upf'') psp in
      case chpsp_directory self of
        None \<Rightarrow> (Inr psp1, w)
      | Some ch \<Rightarrow>
          (let caught = (\<lambda>e w'. if e = FileNotFoundError
                                then (Inr psp1, w'\<lparr> warnings := warnings w' @ [chpsp_warning elem ch] \<rparr>)
                                else (Inl e, w'))
           in case copyfile (files w) (ch @ ''/'' @ elem @ ''.fch.upf'')
                     (path_join target ''{element}.fch.upf'') of
                Inl e \<Rightarrow> caught e w
              | Inr fs1 \<Rightarrow>
                  (case copyfile fs1 (ch @ ''/Core_'' @ elem @ ''.wfc'')
                          (path_join target ''Core_{element}.wfc'') of
                     Inl e \<Rightarrow> caught e (w\<lparr> files := fs1 \<rparr>)
                   | Inr fs2 \<Rightarrow> (Inr psp1, w\<lparr> files := fs2 \<rparr>))))"

text \<open>Lines 478 to 480: the loop over \<^verbatim>\<open>enumerate(sorted(psp.keys()))\<close>; \<^verbatim>\<open>iabs\<close> is
  unbound (\<open>None\<close>) until a key matches.\<close>

fun find_iabs :: "(nat \<times> string) list \<Rightarrow> string \<Rightarrow> nat option \<Rightarrow> nat option" where
  "find_iabs [] key iabs = iabs"
| "find_iabs ((i, j) # rest) key iabs = find_iabs rest key (if j = key then Some (i + 1) else iabs)"

definition determine_iabs :: "psp_dict \<Rightarrow> string \<Rightarrow> nat option" where
  "determine_iabs psp symTarg = find_iabs (enumerate 0 (sort (map fst psp))) (symTarg @ ''+'') None"

text \<open>\<^verbatim>\<open>structure[i] = label\<close>\<close>

definition set_species :: "structure_t \<Rightarrow> int \<Rightarrow> string \<Rightarrow> py_error + structure_t" where
  "set_species st i lab =
     (case py_index (species st) i of
        Inl e \<Rightarrow> Inl e
      | Inr j \<Rightarrow> Inr (st\<lparr> species := (species st)[j := lab] \<rparr>))"

text \<open>The three \<^verbatim>\<open>photon["dipole"]\<close> lists: a direction and a declared weight.\<close>

definition photons :: "int list list" where
  "photons = [[1, 0, 0, 1], [0, 1, 0, 1], [0, 0, 1, 1]]"

definition totalweight :: "int list list \<Rightarrow> int" where
  "totalweight ps = fold (\<lambda>photon tw. tw + photon ! 3) ps 0"

text \<open>
  Lines 510 to 531, the loop over the photons. \<^verbatim>\<open>open(..., "w")\<close> truncates the file before
  the deck is rendered.
\<close>

fun write_photons ::
  "xspectra \<Rightarrow> path \<Rightarrow> nat option \<Rightarrow> int \<Rightarrow> int list list \<Rightarrow> nat \<Rightarrow> (path \<rightharpoonup> content) \<Rightarrow>
   py_error option \<times> (path \<rightharpoonup> content)" where
  "write_photons self path iabs tw [] photonCount fs = (None, fs)"
| "write_photons self path iabs tw (photon # rest) photonCount fs =
     (let photonCount1 = photonCount + 1;
          dir1 = take 3 photon;
          dir2 = dir1
      in if tw = 0 then (Some ZeroDivisionError, fs)
         else
           (let mode = ''dipole'';
                xanesfolder = path_join path (mode @ show_nat photonCount1);
                fs1 = fs(path_join xanesfolder ''xanes.in'' \<mapsto> Text [])
            in case iabs of
                 None \<Rightarrow> (Some UnboundLocalError, fs1)
               | Some i \<Rightarrow>
                   (case write_xspectra_in self mode (int i) dir1 dir2 of
                      Inl e \<Rightarrow> (Some e, fs1)
                    | Inr deck \<Rightarrow>
                        write_photons self path iabs tw rest photonCount1
                          (fs1(path_join xanesfolder ''xanes.in'' \<mapsto> Text deck,
                               path_join xanesfolder ''weight.txt'' \<mapsto> QuotientText (photon ! 3) tw)))))"

text \<open>One pass of the loop over the sites (lines 482 to 531).\<close>

definition write_site ::
  "path \<Rightarrow> psp_dict \<Rightarrow> string \<Rightarrow> int \<times> int \<times> int \<Rightarrow> nat option \<Rightarrow> (int \<rightharpoonup> int) \<Rightarrow>
   int \<times> string \<Rightarrow> xspectra \<times> structure_t \<times> world \<Rightarrow>
   py_error option \<times> xspectra \<times> structure_t \<times> world" where
  "write_site target psp elem kpoints_scf iabs imap ss state =
     (case (ss, state) of ((site, specie), (self, st, w)) \<Rightarrow>
      (let path = path_join target (fmt03 site @ ''_'' @ specie) in
       case imap site of
         None \<Rightarrow> (Some KeyError, self, st, w)
       | Some i \<Rightarrow>
           (case set_species st i (elem @ ''+'') of
              Inl e \<Rightarrow> (Some e, self, st, w)
            | Inr st1 \<Rightarrow>
                (let c = cards self;
                     self1 = self\<lparr> cards := c\<lparr> control := (control c)\<lparr> pseudo_dir := Some ''../'' \<rparr> \<rparr> \<rparr>;
                     c1 = cards self1
                 in case PWInput st1 psp (control c1) (system c1) (electrons c1) kpoints_scf of
                      Inl e \<Rightarrow> (Some e, self1, st1, w)
                    | Inr es_in \<Rightarrow>
                        (let w1 = w\<lparr> files := (files w)(path_join path ''es.in'' \<mapsto> PWDeck es_in) \<rparr> in
                         case set_species st1 i elem of
                           Inl e \<Rightarrow> (Some e, self1, st1, w1)
                         | Inr st2 \<Rightarrow>
                             (case write_photons self1 path iabs (totalweight photons) photons 0
                                     (files w1) of
                                (err, fs2) \<Rightarrow> (err, self1, st2, w1\<lparr> files := fs2 \<rparr>)))))))"

fun write_sites ::
  "path \<Rightarrow> psp_dict \<Rightarrow> string \<Rightarrow> int \<times> int \<times> int \<Rightarrow> nat option \<Rightarrow> (int \<rightharpoonup> int) \<Rightarrow>
   (int \<times> string) list \<Rightarrow> xspectra \<times> structure_t \<times> world \<Rightarrow>
   py_error option \<times> xspectra \<times> structure_t \<times> world" where
  "write_sites target psp elem kpoints_scf iabs imap [] state = (None, state)"
| "write_sites target psp elem kpoints_scf iabs imap (ss # rest) state =
     (case write_site target psp elem kpoints_scf iabs imap ss state of
        (Some e, state1) \<Rightarrow> (Some e, state1)
      | (None, state1) \<Rightarrow> write_sites target psp elem kpoints_scf iabs imap rest state1)"

text \<open>Lines 443 to 445.\<close>

definition store_cutoffs :: "xspectra \<Rightarrow> rat \<Rightarrow> rat \<Rightarrow> xspectra" where
  "store_cutoffs self wfc rho =
     (let c = cards self in
      self\<lparr> cards := c\<lparr> system := (system c)\<lparr> ecutwfc := wfc, ecutrho := rho \<rparr>,
                         control := (control c)\<lparr> pseudo_dir := Some ''../'' \<rparr> \<rparr> \<rparr>)"

text \<open>
  Lines 459 to 531: from the resolved mapping \<^verbatim>\<open>psp\<close> on, the core-hole entry, the
  absorber index and the loop over \<^verbatim>\<open>zip(sites, species)\<close>.
\<close>

definition write_fanout ::
  "path \<Rightarrow> string \<Rightarrow> int \<times> int \<times> int \<Rightarrow> (int \<rightharpoonup> int) \<Rightarrow> (int \<times> string) list \<Rightarrow> psp_dict \<Rightarrow>
   xspectra \<times> structure_t \<times> world \<Rightarrow> py_error option \<times> xspectra \<times> structure_t \<times> world" where
  "write_fanout target elem kpoints_scf imap sss psp state =
     (case state of (self, st, w) \<Rightarrow>
        (case inject_core_hole self target elem psp w of
           (Inl e, w4) \<Rightarrow> (Some e, self, st, w4)
         | (Inr psp1, w4) \<Rightarrow>
             (let iabs = determine_iabs psp1 elem in
              write_sites target psp1 elem kpoints_scf iabs imap sss (self, st, w4))))"

text \<open>
  \<^verbatim>\<open>write(target_directory, **kwargs)\<close>, named \<open>write_xs\<close> here. The instance and the structure are mutated in
  place, so the result carries them, together with the files and warnings, whether the call
  returns its status or raises.
\<close>

definition write_xs ::
  "xspectra \<Rightarrow> path \<Rightarrow> kwargs \<Rightarrow> world \<Rightarrow> (py_error + status) \<times> xspectra \<times> structure_t \<times> world" where
  "write_xs self target kw w =
     (let st = structure_sc kw in
      case write_setup self kw of
        Inl e \<Rightarrow> (Inl e, self, st, w)
      | Inr (self1, symbols, spc, elem, kpoints_scf) \<Rightarrow>
     (case resolve_psp self1 target symbols w of
        (Inl e, self2, w2) \<Rightarrow> (Inl e, self2, st, w2)
      | (Inr (psp_opt, wfc, rho), self2, w2) \<Rightarrow>
     (let self3 = store_cutoffs self2 wfc rho; c = cards self3 in
      case psp_opt of
        None \<Rightarrow> (Inl UnboundLocalError, self3, st, w2)
      | Some psp \<Rightarrow>
     (case PWInput st psp (control c) (system c) (electrons c) kpoints_scf of
        Inl e \<Rightarrow> (Inl e, self3, st, w2)
      | Inr gs_in \<Rightarrow>
     (let w3 = w2\<lparr> files := (files w2)(path_join (path_join target ''GS'') ''gs.in'' \<mapsto> PWDeck gs_in) \<rparr> in
      case write_fanout target elem kpoints_scf (index_mapping kw) (zip (sites kw) spc) psp
             (self3, st, w3) of
        (Some e, self5, st5, w5) \<Rightarrow> (Inl e, self5, st5, w5)
      | (None, self5, st5, w5) \<Rightarrow> (Inr \<lparr> pass = True, errors = [] \<rparr>, self5, st5, w5))))))"

text \<open>Successive calls on one instance: the instance after each call.\<close>

fun write_many :: "xspectra \<Rightarrow> (path \<times> kwargs) list \<Rightarrow> world \<Rightarrow> xspectra list" where
  "write_many self [] w = []"
| "write_many self ((target, kw) # calls) w =
     (case write_xs self target kw w of
        (r, self1, st1, w1) \<Rightarrow> self1 # write_many self1 calls w1)"


section \<open>Example inputs\<close>

definition no_kpoints :: "structure_t \<Rightarrow> int \<times> int \<times> int" where
  "no_kpoints st = (2, 2, 2)"

text \<open>An instance with both asset directories and the cutoff table configured.\<close>

definition xs_full :: xspectra where
  "xs_full =
     \<lparr> cards = XSPECTRA_DEFAULT_CARDS, chpsp_directory = Some ''chpsp'',
       psp_cutoff_table = Some ''table.json'', psp_json = Some ''psp.json'',
       psp_directory = Some ''psp'', kpoints = no_kpoints,
       defaultConvPerAtom = PyFloat ''1e-10'', edge = ''K'', name = ''XSpectra'' \<rparr>"

text \<open>An instance with no asset directory.\<close>

definition xs_bare :: xspectra where
  "xs_bare = xs_full\<lparr> chpsp_directory := None, psp_directory := None, psp_cutoff_table := None,
                      psp_json := None \<rparr>"

definition tio_table :: "(string \<times> psp_entry) list" where
  "tio_table =
     [(''Ti'', \<lparr> filename = Some ''ti.upf'', cutoff_wfc = Some 45, cutoff_rho = Some 360,
                cutoff = None, rho_cutoff = None \<rparr>),
      (''O'', \<lparr> filename = Some ''o.upf'', cutoff_wfc = Some 50, cutoff_rho = Some 300,
               cutoff = None, rho_cutoff = None \<rparr>)]"

definition fs_assets :: "path \<rightharpoonup> content" where
  "fs_assets =
     [ ''psp/table.json'' \<mapsto> CutoffTable tio_table,
       ''psp/ti.upf'' \<mapsto> Text ''ti-potential'',
       ''psp/o.upf'' \<mapsto> Text ''o-potential'',
       ''chpsp/Ti.fch.upf'' \<mapsto> Text ''ti-core-hole'',
       ''chpsp/Core_Ti.wfc'' \<mapsto> Text ''ti-core-wfc'' ]"

definition w_assets :: world where
  "w_assets = \<lparr> files = fs_assets, warnings = [] \<rparr>"

definition w_empty :: world where
  "w_empty = \<lparr> files = Map.empty, warnings = [] \<rparr>"

definition tio :: structure_t where
  "tio = \<lparr> species = [''Ti'', ''O''], primitive_sites = 2 \<rparr>"

definition kw_ti :: kwargs where
  "kw_ti = \<lparr> structure_sc = tio, sites = [0], index_mapping = [0 \<mapsto> 0, 1 \<mapsto> 1] \<rparr>"

definition kw_both :: kwargs where
  "kw_both = \<lparr> structure_sc = tio, sites = [0, 1], index_mapping = [0 \<mapsto> 0, 1 \<mapsto> 1] \<rparr>"


text \<open>The instance as \<^verbatim>\<open>write\<close> leaves its cards for titanium at the K edge.\<close>

definition xs_ti :: xspectra where
  "xs_ti = xs_bare\<lparr> cards := XSPECTRA_DEFAULT_CARDS\<lparr> XS := (XS XSPECTRA_DEFAULT_CARDS)\<lparr>
              element := Some ''Ti'', xs_edge := Some ''K'' \<rparr> \<rparr> \<rparr>"

definition psp_tio :: psp_dict where
  "psp_tio = [(''Ti'', ''Ti.upf''), (''O'', ''O.upf''), (''Ti+'', ''Ti.fch.upf'')]"

text \<open>A resolved mapping for the two symbols, before the core-hole entry is added.\<close>

definition psp_resolved :: psp_dict where
  "psp_resolved = [(''Ti'', ''Ti.upf''), (''O'', ''O.upf'')]"

text \<open>The assets without the oxygen potential.\<close>

definition w_partial :: world where
  "w_partial = \<lparr> files = fs_assets(''psp/o.upf'' := None), warnings = [] \<rparr>"

text \<open>The assets together with the archive that \<^verbatim>\<open>packPsps\<close> makes of them.\<close>

definition fs_packed :: "path \<rightharpoonup> content" where
  "fs_packed = fs_assets(''psp/psp.json'' \<mapsto>
      PspArchive [(''ti.upf'', Bz2_b64 ''ti-potential''), (''o.upf'', Bz2_b64 ''o-potential'')])"


section \<open>Basic facts\<close>

declare write_photons.simps [simp del]

lemmas example_defs =
  xs_bare_def xs_full_def xs_ti_def kw_ti_def kw_both_def tio_def w_empty_def w_assets_def
  w_partial_def fs_assets_def tio_table_def XSPECTRA_DEFAULT_CARDS_def no_kpoints_def psp_tio_def
  psp_resolved_def

text \<open>The misspelt attribute makes every call of \<^verbatim>\<open>_unpackPsps\<close> raise at its second
  statement, before any file is read or written.\<close>

lemma unpackPsps_raises:
  "unpackPsps self wfc rho symbols folder fs = (Inl AttributeError, fs)"
  by (simp add: unpackPsps_def Path_attr_def)

lemma show_int_nat: "show_int (int m) = show_nat m"
  by (simp add: show_int_def)

lemma show_nat_digit: "n < 10 \<Longrightarrow> show_nat n = [digit_char n]"
  by (simp add: show_nat.simps)

lemma py_index_update [simp]: "py_index (xs[j := v]) i = py_index xs i"
  by (simp add: py_index_def)

subsection \<open>The direct lookup\<close>

lemma direct_lookup_mono:
  "direct_lookup d target tbl symbols (psp, wfc, rho, fs) = (err, psp', wfc', rho', fs')
   \<Longrightarrow> wfc \<le> wfc' \<and> rho \<le> rho'"
proof (induction symbols arbitrary: psp wfc rho fs)
  case Nil
  then show ?case by simp
next
  case (Cons s rest)
  then show ?case
    by (fastforce simp: Let_def split: option.splits sum.splits if_splits)
qed

lemma cutoff_set_finite:
  "finite {c. \<exists>s\<in>set symbols. \<exists>e. map_of tbl s = Some e \<and> f e = Some c}"
proof -
  have "{c. \<exists>s\<in>set symbols. \<exists>e. map_of tbl s = Some e \<and> f e = Some c}
        \<subseteq> (\<lambda>s. the (f (the (map_of tbl s)))) ` set symbols"
    by force
  then show ?thesis
    by (rule finite_subset) simp
qed

lemma cutoff_set_Cons:
  "map_of tbl s = Some e \<Longrightarrow> f e = Some c \<Longrightarrow>
   {c'. \<exists>s'\<in>set (s # rest). \<exists>e'. map_of tbl s' = Some e' \<and> f e' = Some c'}
   = insert c {c'. \<exists>s'\<in>set rest. \<exists>e'. map_of tbl s' = Some e' \<and> f e' = Some c'}"
  by auto

lemma Max_insert_absorb:
  fixes x :: "'a::linorder"
  assumes "finite R"
  shows "Max (insert x (insert y R)) = Max (insert (max x y) R)"
proof (cases "R = {}")
  case True
  then show ?thesis by simp
next
  case False
  with assms show ?thesis by (simp add: max.assoc)
qed

lemma direct_lookup_max:
  "direct_lookup d target tbl symbols (psp, wfc, rho, fs) = (None, psp', wfc', rho', fs')
   \<Longrightarrow> wfc' = Max (insert wfc {c. \<exists>s\<in>set symbols. \<exists>e. map_of tbl s = Some e \<and> cutoff_wfc e = Some c})
     \<and> rho' = Max (insert rho {c. \<exists>s\<in>set symbols. \<exists>e. map_of tbl s = Some e \<and> cutoff_rho e = Some c})"
proof (induction symbols arbitrary: psp wfc rho fs)
  case Nil
  then show ?case by simp
next
  case (Cons s rest)
  from Cons.prems obtain e fn fs1 cw cr where
    e: "map_of tbl s = Some e" and cw: "cutoff_wfc e = Some cw" and cr: "cutoff_rho e = Some cr"
    and rec: "direct_lookup d target tbl rest
                (AList.update s fn psp, max wfc cw, max rho cr, fs1) = (None, psp', wfc', rho', fs')"
    by (auto simp: Let_def max_def split: option.splits sum.splits if_splits)
  note ih = Cons.IH [OF rec]
  have "wfc' = Max (insert wfc {c. \<exists>s'\<in>set (s # rest). \<exists>e. map_of tbl s' = Some e \<and> cutoff_wfc e = Some c})"
    using ih unfolding cutoff_set_Cons [where f = cutoff_wfc, OF e cw]
    by (simp add: Max_insert_absorb [OF cutoff_set_finite])
  moreover
  have "rho' = Max (insert rho {c. \<exists>s'\<in>set (s # rest). \<exists>e. map_of tbl s' = Some e \<and> cutoff_rho e = Some c})"
    using ih unfolding cutoff_set_Cons [where f = cutoff_rho, OF e cr]
    by (simp add: Max_insert_absorb [OF cutoff_set_finite])
  ultimately show ?case by simp
qed

lemma tier1_mono:
  "tier1 self target symbols wfc rho fs = (err, psp, wfc', rho', fs') \<Longrightarrow> wfc \<le> wfc' \<and> rho \<le> rho'"
  by (auto simp: tier1_def split: sum.splits prod.splits dest: direct_lookup_mono)

subsection \<open>The resolution\<close>

text \<open>Since the archive tier always raises AttributeError, the two \<^verbatim>\<open>if\<close> statements
  come down to this.\<close>

lemma resolve_psp_cases:
  "resolve_psp self target symbols w =
     (let wfc0 = ecutwfc (system (cards self)); rho0 = ecutrho (system (cards self)) in
      if psp_directory self = None
      then (Inr (Some (placeholder_psp symbols), wfc0, rho0), self, w)
      else (case tier1 self target symbols wfc0 rho0 (files w) of
              (None, psp, wfc, rho, fs) \<Rightarrow> (Inr (psp, wfc, rho), self, w\<lparr> files := fs \<rparr>)
            | (Some e, psp, wfc, rho, fs) \<Rightarrow>
                (Inl (if e = FileNotFoundError then AttributeError else e), self, w\<lparr> files := fs \<rparr>)))"
  by (auto simp: resolve_psp_def Let_def unpackPsps_raises split: prod.splits option.splits sum.splits)

lemma resolve_psp_facts:
  assumes "resolve_psp self target symbols w = (res, self', w')"
  shows "self' = self"
    and "res = Inr (psp_opt, wfc, rho) \<Longrightarrow>
           ecutwfc (system (cards self)) \<le> wfc \<and> ecutrho (system (cards self)) \<le> rho"
  using assms
  by (auto simp: resolve_psp_cases Let_def split: if_splits prod.splits option.splits
           dest: tier1_mono)

subsection \<open>The decks and the loop over the sites\<close>

lemma xspectra_lines_dipole:
  assumes "element (XS (cards self)) = Some el" and "xs_edge (XS (cards self)) = Some ed"
    and "3 \<le> length dirs"
  shows "\<exists>ls. xspectra_lines self ''dipole'' i dirs xk = Inr ls \<and> 6 < length ls
          \<and> ls ! 6 = ''    xiabs = '' @ show_int i"
  using assms by (simp add: xspectra_lines_def Let_def)

lemma write_photons_ok:
  assumes "element (XS (cards self)) = Some el" and "xs_edge (XS (cards self)) = Some ed"
    and "tw \<noteq> 0" and "list_all (\<lambda>p. 3 \<le> length p) ps"
  shows "fst (write_photons self path (Some i) tw ps n fs) = None"
  using assms(4)
proof (induction ps arbitrary: n fs)
  case Nil
  then show ?case by (simp add: write_photons.simps)
next
  case (Cons p ps)
  from Cons.prems have len: "3 \<le> length (take 3 p)" by simp
  from xspectra_lines_dipole [OF assms(1,2) len]
  obtain ls where "xspectra_lines self ''dipole'' (int i) (take 3 p) (take 3 p) = Inr ls"
    by blast
  with Cons assms(3) show ?case
    by (simp add: write_photons.simps Let_def write_xspectra_in_def)
qed

lemma photons_shape: "list_all (\<lambda>p. 3 \<le> length p) photons" "totalweight photons = 3"
  by (simp_all add: photons_def totalweight_def)

lemma write_photons_fst [simp]:
  "element (XS (cards self)) \<noteq> None \<Longrightarrow> xs_edge (XS (cards self)) \<noteq> None \<Longrightarrow>
   fst (write_photons self path (Some i) (totalweight photons) photons n fs) = None"
  using write_photons_ok [of self _ _ "totalweight photons" photons path i n fs] photons_shape
  by auto

lemma write_site_self:
  assumes "write_site target psp elem k iabs imap ss (self, st, w) = (err, self', st', w')"
  shows "system (cards self') = system (cards self) \<and> XS (cards self') = XS (cards self)
       \<and> electrons (cards self') = electrons (cards self)
       \<and> psp_directory self' = psp_directory self \<and> warnings w' = warnings w"
  using assms
  by (cases ss) (auto simp: write_site_def Let_def split: option.splits sum.splits prod.splits)

lemma write_sites_self:
  assumes "write_sites target psp elem k iabs imap sss (self, st, w) = (err, self', st', w')"
  shows "system (cards self') = system (cards self) \<and> XS (cards self') = XS (cards self)
       \<and> electrons (cards self') = electrons (cards self)
       \<and> psp_directory self' = psp_directory self \<and> warnings w' = warnings w"
  using assms
proof (induction sss arbitrary: self st w)
  case Nil
  then show ?case by simp
next
  case (Cons ss rest)
  obtain e1 self1 st1 w1 where
    s1: "write_site target psp elem k iabs imap ss (self, st, w) = (e1, self1, st1, w1)"
    by (metis prod_cases4)
  note f1 = write_site_self [OF s1]
  show ?case
  proof (cases e1)
    case None
    with Cons.prems s1
    have "write_sites target psp elem k iabs imap rest (self1, st1, w1) = (err, self', st', w')"
      by simp
    from Cons.IH [OF this] f1 show ?thesis by simp
  next
    case (Some e)
    with Cons.prems s1 f1 show ?thesis by simp
  qed
qed

subsection \<open>The phases of write\<close>

lemma write_setup_facts:
  assumes "write_setup self kw = Inr (self1, symbols, spc, elem, k)"
  shows "system (cards self1) = system (cards self) \<and> control (cards self1) = control (cards self)
       \<and> psp_directory self1 = psp_directory self \<and> psp_cutoff_table self1 = psp_cutoff_table self
       \<and> psp_json self1 = psp_json self \<and> chpsp_directory self1 = chpsp_directory self
       \<and> symbols = species (structure_sc kw)
       \<and> element (XS (cards self1)) = Some elem \<and> xs_edge (XS (cards self1)) = Some (edge self)
       \<and> site_species (structure_sc kw) (index_mapping kw) (sites kw) = Inr spc
       \<and> (\<exists>rest. spc = elem # rest)"
  using assms
  by (auto simp: write_setup_def Let_def split: sum.splits list.splits)

lemma store_cutoffs_simps [simp]:
  "system (cards (store_cutoffs self wfc rho)) = (system (cards self))\<lparr> ecutwfc := wfc, ecutrho := rho \<rparr>"
  "XS (cards (store_cutoffs self wfc rho)) = XS (cards self)"
  "electrons (cards (store_cutoffs self wfc rho)) = electrons (cards self)"
  "psp_directory (store_cutoffs self wfc rho) = psp_directory self"
  "chpsp_directory (store_cutoffs self wfc rho) = chpsp_directory self"
  by (simp_all add: store_cutoffs_def Let_def)

text \<open>How a call can end, as far as the instance is concerned: it raises before the
  resolution, in the resolution, or stores the resolved cutoffs.\<close>

lemma write_xs_elim:
  assumes "write_xs self target kw w = (r, self', st', w')"
  obtains
    (setup_error) e where "write_setup self kw = Inl e" "r = Inl e" "self' = self"
      "st' = structure_sc kw" "w' = w"
  | (resolve_error) self1 symbols spc elem k e w2 where
      "write_setup self kw = Inr (self1, symbols, spc, elem, k)"
      "resolve_psp self1 target symbols w = (Inl e, self1, w2)"
      "r = Inl e" "self' = self1" "st' = structure_sc kw" "w' = w2"
  | (resolved) self1 symbols spc elem k psp_opt wfc rho w2 where
      "write_setup self kw = Inr (self1, symbols, spc, elem, k)"
      "resolve_psp self1 target symbols w = (Inr (psp_opt, wfc, rho), self1, w2)"
      "system (cards self') = (system (cards self1))\<lparr> ecutwfc := wfc, ecutrho := rho \<rparr>"
      "psp_directory self' = psp_directory self1"
proof (cases "write_setup self kw")
  case (Inl e)
  with assms show ?thesis
    by (intro setup_error [of e]) (auto simp: write_xs_def Let_def)
next
  case (Inr su)
  obtain self1 symbols spc elem k where su: "su = (self1, symbols, spc, elem, k)"
    by (metis prod_cases5)
  obtain res self2 w2 where rs: "resolve_psp self1 target symbols w = (res, self2, w2)"
    by (metis prod_cases3)
  from resolve_psp_facts(1) [OF rs] have s2: "self2 = self1" .
  show ?thesis
  proof (cases res)
    case (Inl e)
    with assms Inr su rs s2 show ?thesis
      by (intro resolve_error [of self1 symbols spc elem k e w2]) (auto simp: write_xs_def Let_def)
  next
    case (Inr ok)
    obtain psp_opt wfc rho where ok: "ok = (psp_opt, wfc, rho)"
      by (metis prod_cases3)
    have "system (cards self') = (system (cards self1))\<lparr> ecutwfc := wfc, ecutrho := rho \<rparr>
          \<and> psp_directory self' = psp_directory self1"
      using assms \<open>write_setup self kw = Inr su\<close> su rs s2 Inr ok
      by (auto simp: write_xs_def write_fanout_def Let_def
               split: option.splits sum.splits prod.splits dest!: write_sites_self)
    with \<open>write_setup self kw = Inr su\<close> su rs s2 Inr ok show ?thesis
      by (intro resolved [of self1 symbols spc elem k psp_opt wfc rho w2]) auto
  qed
qed

lemma write_xs_cutoffs_mono:
  assumes "write_xs self target kw w = (r, self', st', w')"
  shows "ecutwfc (system (cards self)) \<le> ecutwfc (system (cards self'))
       \<and> ecutrho (system (cards self)) \<le> ecutrho (system (cards self'))"
  using assms
proof (cases rule: write_xs_elim)
  case (setup_error e)
  then show ?thesis by simp
next
  case (resolve_error self1 symbols spc elem k e w2)
  with write_setup_facts [OF resolve_error(1)] show ?thesis by simp
next
  case (resolved self1 symbols spc elem k psp_opt wfc rho w2)
  from resolve_psp_facts(2) [OF resolved(2)] write_setup_facts [OF resolved(1)] resolved(3)
  show ?thesis by simp
qed

text \<open>Unfolding a call of \<^verbatim>\<open>write\<close> on concrete inputs, the rendering of the decks apart.\<close>

lemmas write_eval =
  write_xs_def write_fanout_def write_setup_def resolve_psp_cases store_cutoffs_def PWInput_def placeholder_psp_def
  inject_core_hole_def determine_iabs_def write_site_def set_species_def py_index_def
  enumerate_eq_zip Let_def case_prod_beta copyfile_def path_join_def tier1_def Path_attr_def
  load_table_def


section \<open>The cutoffs\<close>

text \<open>
  Claim C1. In a call of \<^verbatim>\<open>write\<close> that reaches the resolution with the pseudopotential
  directory and the cutoff table configured, and whose direct lookup completes for every
  symbol of the structure, the stored \<^verbatim>\<open>ecutwfc\<close> is the maximum of the value the cards held
  before the call and of the table's \<^verbatim>\<open>cutoff_wfc\<close> over the symbols, and \<^verbatim>\<open>ecutrho\<close>
  likewise with \<^verbatim>\<open>cutoff_rho\<close>; neither is lower than before the call.
\<close>

theorem direct_lookup_raises_cutoffs:
  assumes "write_setup self kw = Inr su"
    and "psp_directory self = Some d" and "psp_cutoff_table self = Some t"
    and "load_table (files w) (path_join d t) = Inr tbl"
    and "fst (direct_lookup d target tbl (species (structure_sc kw))
               ([], ecutwfc (system (cards self)), ecutrho (system (cards self)), files w)) = None"
  shows "ecutwfc (system (cards (fst (snd (write_xs self target kw w)))))
           = Max (insert (ecutwfc (system (cards self)))
                   {c. \<exists>s\<in>set (species (structure_sc kw)).
                         \<exists>e. map_of tbl s = Some e \<and> cutoff_wfc e = Some c})
       \<and> ecutrho (system (cards (fst (snd (write_xs self target kw w)))))
           = Max (insert (ecutrho (system (cards self)))
                   {c. \<exists>s\<in>set (species (structure_sc kw)).
                         \<exists>e. map_of tbl s = Some e \<and> cutoff_rho e = Some c})
       \<and> ecutwfc (system (cards self)) \<le> ecutwfc (system (cards (fst (snd (write_xs self target kw w)))))
       \<and> ecutrho (system (cards self)) \<le> ecutrho (system (cards (fst (snd (write_xs self target kw w)))))"
proof -
  let ?wfc0 = "ecutwfc (system (cards self))" and ?rho0 = "ecutrho (system (cards self))"
  let ?symbols = "species (structure_sc kw)"
  obtain r self' st' w' where wr: "write_xs self target kw w = (r, self', st', w')"
    by (metis prod_cases4)
  obtain psp wfc rho fs where
    dl: "direct_lookup d target tbl ?symbols ([], ?wfc0, ?rho0, files w) = (None, psp, wfc, rho, fs)"
    using assms(5) by (metis fst_conv prod_cases5)
  note mx = direct_lookup_max [OF dl]
  from wr have "ecutwfc (system (cards self')) = wfc \<and> ecutrho (system (cards self')) = rho"
  proof (cases rule: write_xs_elim)
    case (setup_error e)
    with assms(1) show ?thesis by simp
  next
    case (resolve_error self1 symbols spc elem k e w2)
    note sf = write_setup_facts [OF resolve_error(1)]
    from resolve_error(2) sf assms(2-4) dl show ?thesis
      by (simp add: resolve_psp_cases tier1_def Path_attr_def Let_def)
  next
    case (resolved self1 symbols spc elem k psp_opt wfc1 rho1 w2)
    note sf = write_setup_facts [OF resolved(1)]
    from resolved(2) sf assms(2-4) dl have "wfc1 = wfc \<and> rho1 = rho"
      by (simp add: resolve_psp_cases tier1_def Path_attr_def Let_def)
    with resolved(3) show ?thesis by simp
  qed
  with mx wr write_xs_cutoffs_mono [OF wr] show ?thesis by simp
qed

text \<open>With the titanium and oxygen entries (45 and 50, 360 and 300) the defaults 40 and 320
  become 50 and 360.\<close>

theorem direct_lookup_raises_cutoffs_witness:
  "ecutwfc (system (cards (fst (snd (write_xs xs_full ''out'' kw_ti w_assets))))) = 50
   \<and> ecutrho (system (cards (fst (snd (write_xs xs_full ''out'' kw_ti w_assets))))) = 360
   \<and> ecutwfc (system (cards xs_full)) = 40 \<and> ecutrho (system (cards xs_full)) = 320"
proof -
  have "\<exists>su. write_setup xs_full kw_ti = Inr su"
    by (simp add: write_setup_def py_index_def Let_def example_defs)
  then obtain su where su: "write_setup xs_full kw_ti = Inr su" ..
  have d: "psp_directory xs_full = Some ''psp''" and t: "psp_cutoff_table xs_full = Some ''table.json''"
    by (simp_all add: example_defs)
  have tb: "load_table (files w_assets) (path_join ''psp'' ''table.json'') = Inr tio_table"
    by (simp add: load_table_def path_join_def w_assets_def fs_assets_def)
  have dl: "fst (direct_lookup ''psp'' ''out'' tio_table (species (structure_sc kw_ti))
               ([], ecutwfc (system (cards xs_full)), ecutrho (system (cards xs_full)), files w_assets)) = None"
    by (simp add: example_defs copyfile_def path_join_def)
  have s1: "{c. \<exists>s\<in>set (species (structure_sc kw_ti)).
                 \<exists>e. map_of tio_table s = Some e \<and> cutoff_wfc e = Some c} = {45, 50}"
    by (auto simp: example_defs)
  have s2: "{c. \<exists>s\<in>set (species (structure_sc kw_ti)).
                 \<exists>e. map_of tio_table s = Some e \<and> cutoff_rho e = Some c} = {360, 300}"
    by (auto simp: example_defs)
  have c0: "ecutwfc (system (cards xs_full)) = 40 \<and> ecutrho (system (cards xs_full)) = 320"
    by (simp add: example_defs)
  from direct_lookup_raises_cutoffs [OF su d t tb dl] show ?thesis
    unfolding s1 s2 using c0 by simp
qed

text \<open>
  Claim C10. Over successive calls of \<^verbatim>\<open>write\<close> on one instance, whether they return or
  raise, the stored \<^verbatim>\<open>ecutwfc\<close> and \<^verbatim>\<open>ecutrho\<close> never decrease: each call starts from the
  stored values and stores what the resolution raised them to.
\<close>

theorem stored_cutoffs_nondecreasing:
  "sorted (map (\<lambda>s. ecutwfc (system (cards s))) (self # write_many self calls w))
   \<and> sorted (map (\<lambda>s. ecutrho (system (cards s))) (self # write_many self calls w))"
proof (induction calls arbitrary: self w)
  case Nil
  show ?case by simp
next
  case (Cons c calls)
  obtain target kw where c: "c = (target, kw)" by (cases c)
  obtain r self1 st1 w1 where wr: "write_xs self target kw w = (r, self1, st1, w1)"
    by (metis prod_cases4)
  from write_xs_cutoffs_mono [OF wr] Cons.IH [of self1 w1] c wr
  show ?case by (simp del: sorted_wrt.simps add: sorted2)
qed


section \<open>The status record\<close>

text \<open>
  Claim C8. A call of \<^verbatim>\<open>write\<close> that returns, returns the record with \<^verbatim>\<open>pass\<close> true and
  no errors, whatever the resolution fell back to and whatever warnings it gave.
\<close>

theorem write_status:
  "fst (write_xs self target kw w) = Inr r \<Longrightarrow> r = \<lparr> pass = True, errors = [] \<rparr>"
  by (auto simp: write_xs_def Let_def split: sum.splits prod.splits option.splits)

theorem write_status_witness:
  "fst (write_xs xs_bare ''out'' kw_ti w_empty) = Inr \<lparr> pass = True, errors = [] \<rparr>"
proof -
  have "\<exists>r. fst (write_xs xs_bare ''out'' kw_ti w_empty) = Inr r"
    by (simp add: write_eval example_defs)
  then obtain r where r: "fst (write_xs xs_bare ''out'' kw_ti w_empty) = Inr r" ..
  from write_status [OF r] r show ?thesis by simp
qed


section \<open>The tiers of the resolution\<close>

text \<open>No call of \<^verbatim>\<open>write\<close> changes \<^verbatim>\<open>self._psp_directory\<close>: the assignment of \<^verbatim>\<open>None\<close> sits in
  a handler for FileNotFoundError around a call that always raises AttributeError.\<close>

lemma write_xs_keeps_psp_directory:
  "psp_directory (fst (snd (write_xs self target kw w))) = psp_directory self"
proof -
  obtain r self' st' w' where wr: "write_xs self target kw w = (r, self', st', w')"
    by (metis prod_cases4)
  from wr have "psp_directory self' = psp_directory self"
  proof (cases rule: write_xs_elim)
    case (setup_error e)
    then show ?thesis by simp
  next
    case (resolve_error self1 symbols spc elem k e w2)
    with write_setup_facts [OF resolve_error(1)] show ?thesis by simp
  next
    case (resolved self1 symbols spc elem k psp_opt wfc rho w2)
    with write_setup_facts [OF resolved(1)] show ?thesis by simp
  qed
  with wr show ?thesis by simp
qed

text \<open>With no directory configured the resolution gives every symbol its placeholder name
  and leaves the cutoffs, the instance, the files and the warnings as they are.\<close>

lemma no_directory_resolution:
  "psp_directory self = None \<Longrightarrow>
   resolve_psp self target symbols w =
     (Inr (Some (placeholder_psp symbols), ecutwfc (system (cards self)), ecutrho (system (cards self))),
      self, w)"
  by (simp add: resolve_psp_def Let_def)

lemma placeholder_psp_keys: "set (map fst (placeholder_psp symbols)) = set symbols"
proof -
  have "fst ` set (fold (\<lambda>symbol psp. AList.update symbol (symbol @ ''.upf'') psp) symbols acc)
        = set symbols \<union> fst ` set acc" for acc :: psp_dict
    by (induction symbols arbitrary: acc) (auto simp: AList.dom_update)
  then show ?thesis by (simp add: placeholder_psp_def)
qed

lemma placeholder_psp_lookup:
  "s \<in> set symbols \<Longrightarrow> map_of (placeholder_psp symbols) s = Some (s @ ''.upf'')"
proof -
  have "map_of (fold (\<lambda>symbol psp. AList.update symbol (symbol @ ''.upf'') psp) symbols acc) s
        = (if s \<in> set symbols then Some (s @ ''.upf'') else map_of acc s)" for acc :: psp_dict
    by (induction symbols arbitrary: acc) (auto simp: AList.update_conv')
  then show "s \<in> set symbols \<Longrightarrow> ?thesis" by (simp add: placeholder_psp_def)
qed

text \<open>
  Claim C5. With the directory configured and the cutoff table absent, the direct lookup
  raises FileNotFoundError and \<^verbatim>\<open>write\<close> calls \<^verbatim>\<open>_unpackPsps\<close>; that call raises
  AttributeError, which no handler catches, so \<^verbatim>\<open>write\<close> raises instead of falling through
  to the placeholders.
\<close>

theorem archive_tier_aborts:
  "fst (write_xs xs_full ''out'' kw_ti w_empty) = Inl AttributeError"
  by (simp add: write_xs_def write_setup_def resolve_psp_def tier1_def unpackPsps_def
        Path_attr_def load_table_def path_join_def py_index_def Let_def example_defs)

text \<open>
  Claim C7. With the table present and one potential missing, the direct lookup fails with
  FileNotFoundError after its first copy, the archive tier raises AttributeError, and
  \<^verbatim>\<open>write\<close> raises: the directory stays configured and no warning is given.
\<close>

theorem directory_stays_configured:
  "fst (write_xs xs_full ''out'' kw_ti w_partial) = Inl AttributeError
   \<and> psp_directory (fst (snd (write_xs xs_full ''out'' kw_ti w_partial))) = Some ''psp''
   \<and> warnings (snd (snd (snd (write_xs xs_full ''out'' kw_ti w_partial)))) = []"
  by (simp add: write_xs_def write_setup_def resolve_psp_def tier1_def unpackPsps_def
        Path_attr_def load_table_def path_join_def py_index_def copyfile_def Let_def example_defs)


section \<open>The archive codec\<close>

text \<open>
  Claim C2. Packing the two potentials of the table gives the archive, and unpacking them
  from it raises AttributeError without writing any file.
\<close>

theorem pack_then_unpack_raises:
  "packPsps xs_full ''psp/psp.json'' fs_assets = Inr fs_packed
   \<and> unpackPsps xs_full 40 320 [''Ti'', ''O''] ''out'' fs_packed = (Inl AttributeError, fs_packed)
   \<and> fs_packed ''out/ti.upf'' = None \<and> fs_packed ''out/o.upf'' = None"
  by (simp add: packPsps_def unpackPsps_def Path_attr_def load_table_def read_text_def
        path_join_def fs_packed_def example_defs)


section \<open>The relabelling of the absorbing site\<close>

text \<open>
  Claim C3, as amended. When a site is processed to the end and its atom carries the
  absorbing element (the species of the first requested site), the species list of the
  structure is the same after the site as before.
\<close>

theorem site_relabel_reverted:
  assumes "fst (write_site target psp elem k iabs imap (site, specie) (self, st, w)) = None"
    and "imap site = Some i" and "py_index (species st) i = Inr j"
    and "species st ! j = elem"
  shows "species (fst (snd (snd (write_site target psp elem k iabs imap (site, specie) (self, st, w)))))
         = species st"
proof -
  let ?st1 = "st\<lparr> species := (species st)[j := elem @ ''+''] \<rparr>"
  have s1: "set_species st i (elem @ ''+'') = Inr ?st1"
    using assms(3) by (simp add: set_species_def)
  have "(species st)[j := elem] = species st"
    using list_update_id [of "species st" j] assms(4) by simp
  then have s2: "set_species ?st1 i elem = Inr (?st1\<lparr> species := species st \<rparr>)"
    using assms(3) by (simp add: set_species_def)
  from assms(1) show ?thesis
    by (simp add: write_site_def assms(2) s1 s2 Let_def case_prod_beta split: sum.splits)
qed

theorem site_relabel_reverted_witness:
  "fst (write_site ''out'' psp_tio ''Ti'' (2, 2, 2) (Some 3) [0 \<mapsto> 0, 1 \<mapsto> 1] (0, ''Ti'')
         (xs_ti, tio, w_empty)) = None
   \<and> species (fst (snd (snd (write_site ''out'' psp_tio ''Ti'' (2, 2, 2) (Some 3) [0 \<mapsto> 0, 1 \<mapsto> 1]
         (0, ''Ti'') (xs_ti, tio, w_empty))))) = species tio"
proof -
  have ok: "fst (write_site ''out'' psp_tio ''Ti'' (2, 2, 2) (Some 3) [0 \<mapsto> 0, 1 \<mapsto> 1] (0, ''Ti'')
         (xs_ti, tio, w_empty)) = None"
    by (simp add: write_eval example_defs)
  have m: "[0 \<mapsto> 0, 1 \<mapsto> (1::int)] (0::int) = Some 0" by simp
  have ix: "py_index (species tio) 0 = Inr 0" by (simp add: py_index_def tio_def)
  have lab: "species tio ! 0 = ''Ti''" by (simp add: tio_def)
  from ok site_relabel_reverted [OF ok m ix lab] show ?thesis
    by (rule conjI)
qed

text \<open>
  The claim as stated fails when the requested sites carry different elements: the
  label is restored to the absorbing element, not to the site's own. For titanium and
  oxygen both requested, the call returns and leaves the oxygen site labelled titanium.
\<close>

theorem site_relabel_counterexample:
  "fst (write_xs xs_bare ''out'' kw_both w_empty) = Inr \<lparr> pass = True, errors = [] \<rparr>
   \<and> species (structure_sc kw_both) = [''Ti'', ''O'']
   \<and> species (fst (snd (snd (write_xs xs_bare ''out'' kw_both w_empty)))) = [''Ti'', ''Ti'']
   \<and> species (fst (snd (snd (write_site ''out'' psp_tio ''Ti'' (2, 2, 2) (Some 3) [0 \<mapsto> 0, 1 \<mapsto> 1]
         (1, ''O'') (xs_ti, tio, w_empty))))) = [''Ti'', ''Ti'']"
  by (simp add: write_eval example_defs)


section \<open>The core-hole files\<close>

text \<open>The loop over the photons writes only files named \<^verbatim>\<open>xanes.in\<close> and \<^verbatim>\<open>weight.txt\<close>.\<close>

lemma path_join_suffix: "suffix (''/'' @ f) (path_join a f)"
  by (simp add: path_join_def suffix_def)

lemma write_photons_frame:
  assumes "\<not> suffix ''/xanes.in'' p" and "\<not> suffix ''/weight.txt'' p"
  shows "snd (write_photons self path iabs tw ps n fs) p = fs p"
proof (induction ps arbitrary: n fs)
  case Nil
  show ?case by (simp add: write_photons.simps)
next
  case (Cons photon rest)
  have ne1: "path_join x ''xanes.in'' \<noteq> p" for x
    using assms(1) path_join_suffix [of "''xanes.in''" x] by auto
  have ne2: "path_join x ''weight.txt'' \<noteq> p" for x
    using assms(2) path_join_suffix [of "''weight.txt''" x] by auto
  show ?case
    using Cons ne1 ne2 ne1 [symmetric] ne2 [symmetric]
    by (auto simp: write_photons.simps Let_def split: option.splits sum.splits)
qed

text \<open>
  Claim C6. With the core-hole directory configured and both files present, \<^verbatim>\<open>write\<close>
  returns without a warning, and the target directory holds the two copies under the
  literal names \<^verbatim>\<open>{element}.fch.upf\<close> and \<^verbatim>\<open>Core_{element}.wfc\<close>, not under the names with
  the symbol substituted.
\<close>

theorem core_hole_copies_misnamed:
  "fst (write_xs xs_full ''out'' kw_ti w_assets) = Inr \<lparr> pass = True, errors = [] \<rparr>
   \<and> files (snd (snd (snd (write_xs xs_full ''out'' kw_ti w_assets)))) ''out/Ti.fch.upf'' = None
   \<and> files (snd (snd (snd (write_xs xs_full ''out'' kw_ti w_assets)))) ''out/Core_Ti.wfc'' = None
   \<and> files (snd (snd (snd (write_xs xs_full ''out'' kw_ti w_assets)))) ''out/{element}.fch.upf''
       = Some (Text ''ti-core-hole'')
   \<and> files (snd (snd (snd (write_xs xs_full ''out'' kw_ti w_assets)))) ''out/Core_{element}.wfc''
       = Some (Text ''ti-core-wfc'')
   \<and> warnings (snd (snd (snd (write_xs xs_full ''out'' kw_ti w_assets)))) = []"
  by (simp add: write_eval example_defs write_photons_frame suffix_to_prefix)



section \<open>The absorber index\<close>

lemma xiabs_line:
  "xspectra_lines self mode i dirs xk = Inr ls \<Longrightarrow> 6 < length ls \<and> ls ! 6 = ''    xiabs = '' @ show_int i"
  by (auto simp: xspectra_lines_def Let_def split: option.splits if_splits)

lemma find_iabs_absent:
  "key \<notin> set keys \<Longrightarrow> find_iabs (enumerate m keys) key acc = acc"
  by (induction keys arbitrary: m acc) auto

lemma find_iabs_position:
  "distinct keys \<Longrightarrow> key \<in> set keys \<Longrightarrow>
   \<exists>k<length keys. find_iabs (enumerate m keys) key acc = Some (m + k + 1) \<and> keys ! k = key"
proof (induction keys arbitrary: m acc)
  case Nil
  then show ?case by simp
next
  case (Cons x keys)
  show ?case
  proof (cases "x = key")
    case True
    with Cons.prems have "key \<notin> set keys" by simp
    from find_iabs_absent [OF this] True show ?thesis by auto
  next
    case False
    with Cons.prems have "distinct keys" "key \<in> set keys" by auto
    from Cons.IH [OF this, of "Suc m" acc] obtain k where
      "k < length keys" "find_iabs (enumerate (Suc m) keys) key acc = Some (Suc m + k + 1)"
      "keys ! k = key" by blast
    with False show ?thesis by (intro exI [of _ "Suc k"]) simp
  qed
qed

lemma determine_iabs_position:
  assumes "distinct (map fst psp)"
  shows "\<exists>k<length (sort (map fst (AList.update (elem @ ''+'') v psp))).
           determine_iabs (AList.update (elem @ ''+'') v psp) elem = Some (k + 1)
         \<and> sort (map fst (AList.update (elem @ ''+'') v psp)) ! k = elem @ ''+''"
proof -
  let ?keys = "sort (map fst (AList.update (elem @ ''+'') v psp))"
  have d: "distinct ?keys"
    using assms by (simp add: AList.distinct_update)
  have m: "elem @ ''+'' \<in> set ?keys"
    using AList.dom_update [of "elem @ ''+''" v psp] by simp
  from find_iabs_position [OF d m, of 0 None] show ?thesis
    by (simp add: determine_iabs_def)
qed



text \<open>The keys of the resolved mapping are distinct, as those of a dict.\<close>

lemma direct_lookup_distinct:
  "direct_lookup d target tbl symbols (psp, wfc, rho, fs) = (err, psp', wfc', rho', fs')
   \<Longrightarrow> distinct (map fst psp) \<Longrightarrow> distinct (map fst psp')"
proof (induction symbols arbitrary: psp wfc rho fs)
  case Nil
  then show ?case by simp
next
  case (Cons s rest)
  then show ?case
    by (fastforce simp: Let_def AList.distinct_update split: option.splits sum.splits if_splits)
qed

lemma placeholder_psp_distinct: "distinct (map fst (placeholder_psp symbols))"
proof -
  have "distinct (map fst acc) \<Longrightarrow>
        distinct (map fst (fold (\<lambda>symbol psp. AList.update symbol (symbol @ ''.upf'') psp) symbols acc))"
    for acc :: psp_dict
    by (induction symbols arbitrary: acc) (simp_all add: AList.distinct_update)
  from this [of "[]"] show ?thesis by (simp add: placeholder_psp_def)
qed

lemma resolve_psp_distinct:
  assumes "resolve_psp self target symbols w = (Inr (Some psp, wfc, rho), self', w')"
  shows "distinct (map fst psp)"
  using assms placeholder_psp_distinct [of symbols]
  by (auto simp: resolve_psp_cases tier1_def Let_def
           split: if_splits prod.splits option.splits sum.splits
           dest!: direct_lookup_distinct)

lemma xanes_not_weight: "path_join x ''xanes.in'' \<noteq> path_join y ''weight.txt''"
proof
  assume "path_join x ''xanes.in'' = path_join y ''weight.txt''"
  then have "last (path_join x ''xanes.in'') = last (path_join y ''weight.txt'')" by simp
  then show False by (simp add: path_join_def)
qed

lemma xanes_not_es: "path_join x ''xanes.in'' \<noteq> path_join y ''es.in''"
proof
  assume eq: "path_join x ''xanes.in'' = path_join y ''es.in''"
  have "suffix ''/xanes.in'' (path_join x ''xanes.in'')"
    using path_join_suffix [of "''xanes.in''" x] by simp
  moreover have "suffix ''/es.in'' (path_join x ''xanes.in'')"
    using path_join_suffix [of "''es.in''" y] eq by simp
  ultimately have "suffix ''/xanes.in'' ''/es.in'' \<or> suffix ''/es.in'' ''/xanes.in''"
    by (rule suffix_same_cases)
  then show False by (simp add: suffix_to_prefix)
qed

text \<open>Once a file named \<^verbatim>\<open>xanes.in\<close> holds a deck whose seventh line gives the absorber
  index, the rest of the call keeps it so: the later decks carry the same index, and the
  other files have other names.\<close>

lemma write_photons_keeps_decks:
  assumes "fst (write_photons self path (Some i) tw ps n fs) = None"
    and "\<exists>ls. fs (path_join x ''xanes.in'') = Some (Text (join_lines ls)) \<and> 6 < length ls
              \<and> ls ! 6 = ''    xiabs = '' @ show_int (int i)"
  shows "\<exists>ls. snd (write_photons self path (Some i) tw ps n fs) (path_join x ''xanes.in'')
               = Some (Text (join_lines ls)) \<and> 6 < length ls
              \<and> ls ! 6 = ''    xiabs = '' @ show_int (int i)"
  using assms
proof (induction ps arbitrary: n fs)
  case Nil
  then show ?case by (simp add: write_photons.simps)
next
  case (Cons photon rest)
  let ?folder = "path_join path (''dipole'' @ show_nat (n + 1))"
  from Cons.prems(1) obtain ls where
    tw: "tw \<noteq> 0" and
    ls: "xspectra_lines self ''dipole'' (int i) (take 3 photon) (take 3 photon) = Inr ls"
    by (auto simp: write_photons.simps Let_def write_xspectra_in_def split: if_splits sum.splits)
  let ?fs2 = "fs(path_join ?folder ''xanes.in'' \<mapsto> Text (join_lines ls),
                 path_join ?folder ''weight.txt'' \<mapsto> QuotientText (photon ! 3) tw)"
  have step: "write_photons self path (Some i) tw (photon # rest) n fs
              = write_photons self path (Some i) tw rest (n + 1) ?fs2"
    using tw ls by (simp add: write_photons.simps Let_def write_xspectra_in_def)
  have good: "\<exists>ls. ?fs2 (path_join x ''xanes.in'') = Some (Text (join_lines ls)) \<and> 6 < length ls
              \<and> ls ! 6 = ''    xiabs = '' @ show_int (int i)"
    using Cons.prems(2) xiabs_line [OF ls] xanes_not_weight [of x ?folder] by auto
  from Cons.prems(1) have "fst (write_photons self path (Some i) tw rest (n + 1) ?fs2) = None"
    by (simp only: step)
  from Cons.IH [OF this good] show ?case by (simp only: step)
qed

lemma write_photons_writes_decks:
  assumes "fst (write_photons self path (Some i) tw ps n fs) = None" and "k < length ps"
  shows "\<exists>ls. snd (write_photons self path (Some i) tw ps n fs)
                 (path_join (path_join path (''dipole'' @ show_nat (n + k + 1))) ''xanes.in'')
               = Some (Text (join_lines ls)) \<and> 6 < length ls
              \<and> ls ! 6 = ''    xiabs = '' @ show_int (int i)"
  using assms
proof (induction ps arbitrary: n fs k)
  case Nil
  then show ?case by simp
next
  case (Cons photon rest)
  let ?folder = "path_join path (''dipole'' @ show_nat (n + 1))"
  from Cons.prems(1) obtain ls where
    tw: "tw \<noteq> 0" and
    ls: "xspectra_lines self ''dipole'' (int i) (take 3 photon) (take 3 photon) = Inr ls"
    by (auto simp: write_photons.simps Let_def write_xspectra_in_def split: if_splits sum.splits)
  let ?fs2 = "fs(path_join ?folder ''xanes.in'' \<mapsto> Text (join_lines ls),
                 path_join ?folder ''weight.txt'' \<mapsto> QuotientText (photon ! 3) tw)"
  have step: "write_photons self path (Some i) tw (photon # rest) n fs
              = write_photons self path (Some i) tw rest (n + 1) ?fs2"
    using tw ls by (simp add: write_photons.simps Let_def write_xspectra_in_def)
  from Cons.prems(1) have rest_ok: "fst (write_photons self path (Some i) tw rest (n + 1) ?fs2) = None"
    by (simp only: step)
  show ?case
  proof (cases k)
    case 0
    have "\<exists>ls. ?fs2 (path_join ?folder ''xanes.in'') = Some (Text (join_lines ls)) \<and> 6 < length ls
              \<and> ls ! 6 = ''    xiabs = '' @ show_int (int i)"
      using xiabs_line [OF ls] xanes_not_weight [of ?folder ?folder] by auto
    from write_photons_keeps_decks [OF rest_ok this] show ?thesis
      unfolding step 0 by (simp only: add_0_right)
  next
    case (Suc k')
    with Cons.prems(2) have "k' < length rest" by simp
    moreover have eq: "n + k + 1 = n + 1 + k' + 1" using Suc by simp
    ultimately show ?thesis
      using Cons.IH [OF rest_ok, of k'] unfolding step eq by blast
  qed
qed


lemma write_site_keeps_decks:
  assumes "fst (write_site target psp elem kscf (Some i) imap ss (self, st, w)) = None"
    and "\<exists>ls. files w (path_join x ''xanes.in'') = Some (Text (join_lines ls)) \<and> 6 < length ls
              \<and> ls ! 6 = ''    xiabs = '' @ show_int (int i)"
  shows "\<exists>ls. files (snd (snd (snd (write_site target psp elem kscf (Some i) imap ss (self, st, w)))))
                 (path_join x ''xanes.in'')
               = Some (Text (join_lines ls)) \<and> 6 < length ls
              \<and> ls ! 6 = ''    xiabs = '' @ show_int (int i)"
proof -
  obtain site specie where ss: "ss = (site, specie)" by (cases ss)
  let ?path = "path_join target (fmt03 site @ ''_'' @ specie)"
  let ?self1 = "self\<lparr> cards := (cards self)\<lparr> control := (control (cards self))\<lparr> pseudo_dir := Some ''../'' \<rparr> \<rparr> \<rparr>"
  from assms(1) ss obtain es_in where
    res: "files (snd (snd (snd (write_site target psp elem kscf (Some i) imap ss (self, st, w)))))
          = snd (write_photons ?self1 ?path (Some i) (totalweight photons) photons 0
                              ((files w)(path_join ?path ''es.in'' \<mapsto> PWDeck es_in)))"
    and ok: "fst (write_photons ?self1 ?path (Some i) (totalweight photons) photons 0
                              ((files w)(path_join ?path ''es.in'' \<mapsto> PWDeck es_in))) = None"
    by (auto simp: write_site_def Let_def case_prod_beta split: option.splits sum.splits)
  have "\<exists>ls. ((files w)(path_join ?path ''es.in'' \<mapsto> PWDeck es_in)) (path_join x ''xanes.in'')
               = Some (Text (join_lines ls)) \<and> 6 < length ls
              \<and> ls ! 6 = ''    xiabs = '' @ show_int (int i)"
    using assms(2) xanes_not_es [of x ?path] by auto
  from write_photons_keeps_decks [OF ok this] show ?thesis
    unfolding res .
qed

lemma write_site_writes_decks:
  assumes "fst (write_site target psp elem kscf (Some i) imap (site, specie) (self, st, w)) = None"
    and "k < 3"
  shows "\<exists>ls. files (snd (snd (snd (write_site target psp elem kscf (Some i) imap (site, specie) (self, st, w)))))
                 (path_join (path_join (path_join target (fmt03 site @ ''_'' @ specie))
                    (''dipole'' @ show_nat (k + 1))) ''xanes.in'')
               = Some (Text (join_lines ls)) \<and> 6 < length ls
              \<and> ls ! 6 = ''    xiabs = '' @ show_int (int i)"
proof -
  let ?path = "path_join target (fmt03 site @ ''_'' @ specie)"
  let ?self1 = "self\<lparr> cards := (cards self)\<lparr> control := (control (cards self))\<lparr> pseudo_dir := Some ''../'' \<rparr> \<rparr> \<rparr>"
  from assms(1) obtain es_in where
    res: "files (snd (snd (snd (write_site target psp elem kscf (Some i) imap (site, specie) (self, st, w)))))
          = snd (write_photons ?self1 ?path (Some i) (totalweight photons) photons 0
                              ((files w)(path_join ?path ''es.in'' \<mapsto> PWDeck es_in)))"
    and ok: "fst (write_photons ?self1 ?path (Some i) (totalweight photons) photons 0
                              ((files w)(path_join ?path ''es.in'' \<mapsto> PWDeck es_in))) = None"
    by (auto simp: write_site_def Let_def case_prod_beta split: option.splits sum.splits)
  have "k < length photons" using assms(2) by (simp add: photons_def)
  from write_photons_writes_decks [OF ok this] show ?thesis
    unfolding res by (simp only: add_0)
qed


lemma write_sites_keeps_decks:
  assumes "fst (write_sites target psp elem kscf (Some i) imap sss (self, st, w)) = None"
    and "\<exists>ls. files w (path_join x ''xanes.in'') = Some (Text (join_lines ls)) \<and> 6 < length ls
              \<and> ls ! 6 = ''    xiabs = '' @ show_int (int i)"
  shows "\<exists>ls. files (snd (snd (snd (write_sites target psp elem kscf (Some i) imap sss (self, st, w)))))
                 (path_join x ''xanes.in'')
               = Some (Text (join_lines ls)) \<and> 6 < length ls
              \<and> ls ! 6 = ''    xiabs = '' @ show_int (int i)"
  using assms
proof (induction sss arbitrary: self st w)
  case Nil
  then show ?case by simp
next
  case (Cons ss rest)
  obtain e1 self1 st1 w1 where
    s1: "write_site target psp elem kscf (Some i) imap ss (self, st, w) = (e1, self1, st1, w1)"
    by (metis prod_cases4)
  from Cons.prems(1) s1 have e1: "e1 = None"
    by (cases e1) simp_all
  from Cons.prems(1) s1 e1
  have rest_ok: "fst (write_sites target psp elem kscf (Some i) imap rest (self1, st1, w1)) = None"
    by simp
  have "fst (write_site target psp elem kscf (Some i) imap ss (self, st, w)) = None"
    using s1 e1 by simp
  from write_site_keeps_decks [OF this Cons.prems(2)] s1
  have "\<exists>ls. files w1 (path_join x ''xanes.in'') = Some (Text (join_lines ls)) \<and> 6 < length ls
              \<and> ls ! 6 = ''    xiabs = '' @ show_int (int i)"
    by simp
  from Cons.IH [OF rest_ok this] s1 e1 show ?case by simp
qed

lemma write_sites_writes_decks:
  assumes "fst (write_sites target psp elem kscf (Some i) imap sss (self, st, w)) = None"
    and "(site, specie) \<in> set sss" and "k < 3"
  shows "\<exists>ls. files (snd (snd (snd (write_sites target psp elem kscf (Some i) imap sss (self, st, w)))))
                 (path_join (path_join (path_join target (fmt03 site @ ''_'' @ specie))
                    (''dipole'' @ show_nat (k + 1))) ''xanes.in'')
               = Some (Text (join_lines ls)) \<and> 6 < length ls
              \<and> ls ! 6 = ''    xiabs = '' @ show_int (int i)"
  using assms(1,2)
proof (induction sss arbitrary: self st w)
  case Nil
  then show ?case by simp
next
  case (Cons ss rest)
  obtain e1 self1 st1 w1 where
    s1: "write_site target psp elem kscf (Some i) imap ss (self, st, w) = (e1, self1, st1, w1)"
    by (metis prod_cases4)
  from Cons.prems(1) s1 have e1: "e1 = None"
    by (cases e1) simp_all
  from Cons.prems(1) s1 e1
  have rest_ok: "fst (write_sites target psp elem kscf (Some i) imap rest (self1, st1, w1)) = None"
    by simp
  have step: "write_sites target psp elem kscf (Some i) imap (ss # rest) (self, st, w)
              = write_sites target psp elem kscf (Some i) imap rest (self1, st1, w1)"
    using s1 e1 by simp
  show ?case
  proof (cases "ss = (site, specie)")
    case True
    have "fst (write_site target psp elem kscf (Some i) imap (site, specie) (self, st, w)) = None"
      using s1 e1 True by simp
    from write_site_writes_decks [OF this assms(3)] s1 True
    have "\<exists>ls. files w1 (path_join (path_join (path_join target (fmt03 site @ ''_'' @ specie))
                    (''dipole'' @ show_nat (k + 1))) ''xanes.in'')
               = Some (Text (join_lines ls)) \<and> 6 < length ls
              \<and> ls ! 6 = ''    xiabs = '' @ show_int (int i)"
      by simp
    from write_sites_keeps_decks [OF rest_ok this] show ?thesis
      unfolding step .
  next
    case False
    with Cons.prems(2) have "(site, specie) \<in> set rest" by simp
    from Cons.IH [OF rest_ok this] show ?thesis
      unfolding step .
  qed
qed

lemma inject_core_hole_entry:
  "inject_core_hole self target elem psp w = (Inr psp1, w4) \<Longrightarrow>
   psp1 = AList.update (elem @ ''+'') (elem @ ''.fch.upf'') psp"
  by (auto simp: inject_core_hole_def Let_def split: option.splits sum.splits if_splits)

text \<open>
  Claim C4. When the fan-out from a resolved mapping (a dict, so with distinct keys) runs to
  the end, the XANES deck of every requested site and of each of the three directions
  carries, in its \<^verbatim>\<open>xiabs\<close> line, the 1-based position of the key \<^verbatim>\<open>element + "+"\<close> among the
  sorted keys of the mapping extended by that key.
\<close>

theorem absorber_index_in_decks:
  assumes "fst (write_fanout target elem kscf imap sss psp (self, st, w)) = None"
    and "distinct (map fst psp)"
    and "(site, specie) \<in> set sss" and "n \<in> {1, 2, 3}"
  shows "\<exists>iabs ls.
           files (snd (snd (snd (write_fanout target elem kscf imap sss psp (self, st, w)))))
             (path_join (path_join (path_join target (fmt03 site @ ''_'' @ specie))
                (''dipole'' @ show_nat n)) ''xanes.in'')
             = Some (Text (join_lines ls))
         \<and> 6 < length ls \<and> ls ! 6 = ''    xiabs = '' @ show_nat iabs
         \<and> 1 \<le> iabs
         \<and> iabs \<le> length (sort (map fst (AList.update (elem @ ''+'') (elem @ ''.fch.upf'') psp)))
         \<and> sort (map fst (AList.update (elem @ ''+'') (elem @ ''.fch.upf'') psp)) ! (iabs - 1)
             = elem @ ''+''
         \<and> distinct (sort (map fst (AList.update (elem @ ''+'') (elem @ ''.fch.upf'') psp)))"
proof -
  let ?psp1 = "AList.update (elem @ ''+'') (elem @ ''.fch.upf'') psp"
  obtain res w4 where inj: "inject_core_hole self target elem psp w = (res, w4)"
    by (cases "inject_core_hole self target elem psp w")
  from assms(1) inj obtain p1 where res: "res = Inr p1"
    by (cases res) (simp_all add: write_fanout_def)
  from inject_core_hole_entry [of self target elem psp w p1 w4] inj res
  have p1: "p1 = ?psp1" by simp
  from determine_iabs_position [OF assms(2), of elem "elem @ ''.fch.upf''"]
  obtain k where k: "k < length (sort (map fst ?psp1))"
    and ia: "determine_iabs ?psp1 elem = Some (k + 1)"
    and pos: "sort (map fst ?psp1) ! k = elem @ ''+''"
    by blast
  have fan: "write_fanout target elem kscf imap sss psp (self, st, w)
             = write_sites target ?psp1 elem kscf (Some (k + 1)) imap sss (self, st, w4)"
    using inj res p1 ia by (simp add: write_fanout_def)
  from assms(1) have ok: "fst (write_sites target ?psp1 elem kscf (Some (k + 1)) imap sss (self, st, w4)) = None"
    unfolding fan .
  from assms(4) obtain m where m: "m < 3" "n = m + 1"
    by (cases "n = 1"; cases "n = 2"; cases "n = 3") auto
  from write_sites_writes_decks [OF ok assms(3) m(1)]
  obtain ls where
    "files (snd (snd (snd (write_sites target ?psp1 elem kscf (Some (k + 1)) imap sss (self, st, w4)))))
       (path_join (path_join (path_join target (fmt03 site @ ''_'' @ specie))
          (''dipole'' @ show_nat (m + 1))) ''xanes.in'') = Some (Text (join_lines ls))"
    "6 < length ls" "ls ! 6 = ''    xiabs = '' @ show_int (int (k + 1))"
    by blast
  moreover have "show_int (int (k + 1)) = show_nat (k + 1)"
    by (rule show_int_nat)
  moreover have "distinct (sort (map fst ?psp1))"
    using assms(2) by (simp add: AList.distinct_update)
  ultimately show ?thesis
    using k pos m(2) unfolding fan
    by (intro exI [of _ "k + 1"] exI [of _ ls]) simp
qed


text \<open>For the keys O, Ti and Ti+ and the absorbing element Ti the index is 3.\<close>

theorem absorber_index_in_decks_witness:
  "(\<exists>ls. files (snd (snd (snd (write_fanout ''out'' ''Ti'' (2, 2, 2) [0 \<mapsto> 0, 1 \<mapsto> 1] [(0, ''Ti'')]
                 psp_resolved (xs_ti, tio, w_empty)))))
           ''out/000_Ti/dipole1/xanes.in'' = Some (Text (join_lines ls))
        \<and> ls ! 6 = ''    xiabs = 3'')
   \<and> sort (map fst (AList.update ''Ti+'' ''Ti.fch.upf'' psp_resolved)) = [''O'', ''Ti'', ''Ti+'']
   \<and> determine_iabs (AList.update ''Ti+'' ''Ti.fch.upf'' psp_resolved) ''Ti'' = Some 3"
proof -
  let ?keys = "sort (map fst (AList.update (''Ti'' @ ''+'') (''Ti'' @ ''.fch.upf'') psp_resolved))"
  have ok: "fst (write_fanout ''out'' ''Ti'' (2, 2, 2) [0 \<mapsto> 0, 1 \<mapsto> 1] [(0, ''Ti'')]
                 psp_resolved (xs_ti, tio, w_empty)) = None"
    by (simp add: write_eval example_defs psp_resolved_def)
  have d: "distinct (map fst psp_resolved)"
    by (simp add: psp_resolved_def)
  have mem: "(0, ''Ti'') \<in> set [(0::int, ''Ti'')]" by simp
  have n: "(1::nat) \<in> {1, 2, 3}" by simp
  have keys: "?keys = [''O'', ''Ti'', ''Ti+'']"
    by (simp add: psp_resolved_def)
  have p: "path_join (path_join (path_join ''out'' (fmt03 0 @ ''_'' @ ''Ti'')) (''dipole'' @ show_nat 1))
             ''xanes.in'' = ''out/000_Ti/dipole1/xanes.in''"
    by (simp add: path_join_def fmt03_def zfill_def show_nat_digit digit_char_def numeral_2_eq_2)
  from absorber_index_in_decks [OF ok d mem n]
  obtain iabs ls where
    f: "files (snd (snd (snd (write_fanout ''out'' ''Ti'' (2, 2, 2) [0 \<mapsto> 0, 1 \<mapsto> 1] [(0, ''Ti'')]
                 psp_resolved (xs_ti, tio, w_empty)))))
           ''out/000_Ti/dipole1/xanes.in'' = Some (Text (join_lines ls))"
    and l: "ls ! 6 = ''    xiabs = '' @ show_nat iabs"
    and b: "1 \<le> iabs" "iabs \<le> length ?keys"
    and k: "?keys ! (iabs - 1) = ''Ti'' @ ''+''"
    unfolding p by blast
  from b k have "iabs = 3"
    unfolding keys by (cases "iabs = 1"; cases "iabs = 2") auto
  with l have "ls ! 6 = ''    xiabs = 3''"
    by (simp add: show_nat_digit digit_char_def)
  with f have "\<exists>ls. files (snd (snd (snd (write_fanout ''out'' ''Ti'' (2, 2, 2) [0 \<mapsto> 0, 1 \<mapsto> 1]
                 [(0, ''Ti'')] psp_resolved (xs_ti, tio, w_empty)))))
           ''out/000_Ti/dipole1/xanes.in'' = Some (Text (join_lines ls))
        \<and> ls ! 6 = ''    xiabs = 3''"
    by blast
  moreover have "determine_iabs (AList.update ''Ti+'' ''Ti.fch.upf'' psp_resolved) ''Ti'' = Some 3"
    by (simp add: determine_iabs_def enumerate_eq_zip psp_resolved_def)
  ultimately show ?thesis using keys by simp
qed


end
